theory Spec2Isabelle
  imports Main "HOL-Library.Word" "HOL-Library.AList" "HOL-Library.Char_ord" "HOL-Library.List_Lexorder"
    "HOL-Library.Monad_Syntax"
begin

unbundle bit_operations_syntax

section \<open>JavaScript strings\<close>

text \<open>
  A JavaScript string is a sequence of UTF-16 code units. The model uses \<^typ>\<open>string\<close>
  (a list of \<^typ>\<open>char\<close>), each \<^typ>\<open>char\<close> read as the code unit of the same number, so
  the strings of the model are those whose code units are below 256 (ISO-8859-1, which holds
  ASCII and the accented Latin letters of the letter test, the code units 192 to 255).
  \<open>length\<close> counts code units, as \<^verbatim>\<open>.length\<close> does.
\<close>

definition charCode :: "char \<Rightarrow> nat" where
  "charCode c = of_char c"

definition isDigit :: "char \<Rightarrow> bool" where
  \<comment> \<open>\<^verbatim>\<open>\d\<close>, \<^verbatim>\<open>[0-9]\<close>\<close>
  "isDigit c = (48 \<le> charCode c \<and> charCode c \<le> 57)"

definition isUpper :: "char \<Rightarrow> bool" where
  \<comment> \<open>\<^verbatim>\<open>[A-Z]\<close>\<close>
  "isUpper c = (65 \<le> charCode c \<and> charCode c \<le> 90)"

definition isLower :: "char \<Rightarrow> bool" where
  \<comment> \<open>\<^verbatim>\<open>[a-z]\<close>\<close>
  "isLower c = (97 \<le> charCode c \<and> charCode c \<le> 122)"

definition isAsciiLetter :: "char \<Rightarrow> bool" where
  \<comment> \<open>\<^verbatim>\<open>[a-zA-Z]\<close>\<close>
  "isAsciiLetter c = (isUpper c \<or> isLower c)"

definition isWordChar :: "char \<Rightarrow> bool" where
  \<comment> \<open>\<^verbatim>\<open>\w\<close>, \<^verbatim>\<open>[A-Za-z0-9_]\<close>\<close>
  "isWordChar c = (isAsciiLetter c \<or> isDigit c \<or> c = CHR ''_'')"

definition isSpace :: "char \<Rightarrow> bool" where
  \<comment> \<open>\<^verbatim>\<open>\s\<close> and the characters \<^verbatim>\<open>trim\<close> strips, below 256: tab, line feed, vertical tab,
      form feed, carriage return, space, no-break space\<close>
  "isSpace c = (charCode c \<in> {9, 10, 11, 12, 13, 32, 160})"

definition isHexDigit :: "char \<Rightarrow> bool" where
  \<comment> \<open>\<^verbatim>\<open>[0-9a-fA-F]\<close>\<close>
  "isHexDigit c = (isDigit c \<or> (65 \<le> charCode c \<and> charCode c \<le> 70)
                    \<or> (97 \<le> charCode c \<and> charCode c \<le> 102))"

definition isLetter :: "char \<Rightarrow> bool" where
  \<comment> \<open>the class of \<^verbatim>\<open>a-z\<close>, \<^verbatim>\<open>A-Z\<close> and the code units 192 (A grave) to 255 (y diaeresis)\<close>
  "isLetter c = (isAsciiLetter c \<or> (192 \<le> charCode c \<and> charCode c \<le> 255))"

definition trim :: "string \<Rightarrow> string" where
  \<comment> \<open>\<^verbatim>\<open>String.prototype.trim\<close>\<close>
  "trim s = rev (dropWhile isSpace (rev (dropWhile isSpace s)))"

definition lowerChar :: "char \<Rightarrow> char" where
  \<comment> \<open>lower case of one code unit below 256: A-Z and 192-222 without the multiplication
      sign 215 move up by 32\<close>
  "lowerChar c =
     (if isUpper c \<or> (192 \<le> charCode c \<and> charCode c \<le> 222 \<and> charCode c \<noteq> 215)
      then char_of (charCode c + 32) else c)"

definition toLowerCase :: "string \<Rightarrow> string" where
  \<comment> \<open>\<^verbatim>\<open>String.prototype.toLowerCase\<close>\<close>
  "toLowerCase s = map lowerChar s"

fun startsWith :: "string \<Rightarrow> string \<Rightarrow> bool" where
  \<comment> \<open>\<^verbatim>\<open>s.startsWith(p)\<close>, and a pattern \<^verbatim>\<open>^p\<close> of literal characters\<close>
  "startsWith s [] = True"
| "startsWith [] (p # ps) = False"
| "startsWith (c # cs) (p # ps) = (c = p \<and> startsWith cs ps)"

fun str_includes :: "string \<Rightarrow> string \<Rightarrow> bool" where
  \<comment> \<open>\<^verbatim>\<open>s.includes(p)\<close>\<close>
  "str_includes [] p = (p = [])"
| "str_includes (c # cs) p = (startsWith (c # cs) p \<or> str_includes cs p)"

definition join :: "string \<Rightarrow> string list \<Rightarrow> string" where
  \<comment> \<open>\<^verbatim>\<open>xs.join(sep)\<close>\<close>
  "join sep xs = (case xs of [] \<Rightarrow> [] | y # ys \<Rightarrow> y @ concat (map (\<lambda>z. sep @ z) ys))"

section \<open>Configuration (types/index.ts, ConfigManager.ts)\<close>

datatype keyStrategy = TextStrategy | HashStrategy | PathStrategy | CustomStrategy

text \<open>
  A custom skip pattern is a string that \<^verbatim>\<open>new RegExp\<close> compiles when the text is
  classified. The model holds the compiled pattern: \<open>Some m\<close> with \<open>m\<close> the test of the
  regular expression, \<open>None\<close> for a pattern that does not compile (\<^verbatim>\<open>new RegExp\<close> throws,
  the validator warns and goes on).
\<close>

record validationConfig =
  minLength :: int
  maxLength :: int
  skipTechnicalTerms :: bool
  skipCodeFragments :: bool
  skipNumbers :: bool
  skipPaths :: bool
  customSkipPatterns :: "(string \<Rightarrow> bool) option list"

record transformationConfig =
  extractJSXText_cfg :: bool
  extractAttributes_cfg :: bool

record componentsConfig =
  addUseTranslationHook :: bool
  supportClassComponents :: bool
  customHookImport :: "string option"

record formatConfig =
  indent :: nat
  sortKeys :: bool
  keyStrategyOf :: keyStrategy

record advancedConfig =
  generateTypeDefinitions_cfg :: bool
  createBackup_cfg :: bool

record I18nConfig =
  srcDir :: string
  outputDir :: string
  backupDir :: "string option"
  sourceLanguage :: string
  targetLanguages :: "string list"
  transformation :: transformationConfig
  components :: componentsConfig
  validation :: validationConfig
  format :: formatConfig
  advanced :: advancedConfig

definition getDefaultConfig :: I18nConfig where
  "getDefaultConfig = \<lparr>
     srcDir = ''./src'',
     outputDir = ''./src/locales'',
     backupDir = Some ''./i18n-backup'',
     sourceLanguage = ''en'',
     targetLanguages = [''es'', ''fr'', ''de'', ''pt''],
     transformation = \<lparr> extractJSXText_cfg = True, extractAttributes_cfg = True \<rparr>,
     components = \<lparr> addUseTranslationHook = True, supportClassComponents = True,
                    customHookImport = Some ''react-i18next'' \<rparr>,
     validation = \<lparr> minLength = 2, maxLength = 500, skipTechnicalTerms = True,
                    skipCodeFragments = True, skipNumbers = True, skipPaths = True,
                    customSkipPatterns = [] \<rparr>,
     format = \<lparr> indent = 2, sortKeys = True, keyStrategyOf = TextStrategy \<rparr>,
     advanced = \<lparr> generateTypeDefinitions_cfg = True, createBackup_cfg = True \<rparr> \<rparr>"

subsection \<open>The default validation rules\<close>

datatype severity = Error | Warning | Info

record ValidationRule =
  name :: string
  pattern :: "string \<Rightarrow> bool"
  description :: string
  severity :: severity

fun templateLiteralPattern :: "string \<Rightarrow> bool" where
  \<comment> \<open>\<^verbatim>\<open>/'\s*\+\s*|'\s*\+\s*'/\<close>: a quote, white space, a plus\<close>
  "templateLiteralPattern [] = False"
| "templateLiteralPattern (c # cs) =
     ((c = CHR 0x27 \<and> startsWith (dropWhile isSpace cs) ''+'') \<or> templateLiteralPattern cs)"

fun conditionalExpressionPattern :: "string \<Rightarrow> bool" where
  \<comment> \<open>\<^verbatim>\<open>/\?\s*\(|\)\s*:/\<close>\<close>
  "conditionalExpressionPattern [] = False"
| "conditionalExpressionPattern (c # cs) =
     ((c = CHR ''?'' \<and> startsWith (dropWhile isSpace cs) ''('')
      \<or> (c = CHR '')'' \<and> startsWith (dropWhile isSpace cs) '':'')
      \<or> conditionalExpressionPattern cs)"

definition jsxExpressionPattern :: "string \<Rightarrow> bool" where
  \<comment> \<open>\<^verbatim>\<open>/\{|\}|<|>/\<close>\<close>
  "jsxExpressionPattern s = list_ex (\<lambda>c. c \<in> set ''{}<>'') s"

definition codeKeywords :: "string list" where
  "codeKeywords = [''import'', ''export'', ''const'', ''let'', ''var'', ''function'', ''class'',
     ''return'', ''if'', ''else'', ''for'', ''while'', ''switch'', ''case'', ''break'',
     ''continue'', ''try'', ''catch'', ''finally'', ''throw'', ''async'', ''await'', ''typeof'',
     ''instanceof'']"

definition wordEndsAt :: "string \<Rightarrow> bool" where
  \<comment> \<open>\<^verbatim>\<open>\b\<close> after a word character: the end of the input or a character that is not one\<close>
  "wordEndsAt rest = (case rest of [] \<Rightarrow> True | d # _ \<Rightarrow> \<not> isWordChar d)"

fun keywordFrom :: "bool \<Rightarrow> string \<Rightarrow> bool" where
  \<comment> \<open>the scan of \<^verbatim>\<open>/\b(import|...|instanceof)\b/\<close>; the flag says that the character before
      is a word character, where no keyword can start\<close>
  "keywordFrom prevWord [] = False"
| "keywordFrom prevWord (c # cs) =
     ((\<not> prevWord \<and> list_ex (\<lambda>kw. startsWith (c # cs) kw \<and> wordEndsAt (drop (length kw) (c # cs)))
                               codeKeywords)
      \<or> keywordFrom (isWordChar c) cs)"

definition codeKeywordsPattern :: "string \<Rightarrow> bool" where
  "codeKeywordsPattern s = keywordFrom False s"

definition cssUnitsPattern :: "string \<Rightarrow> bool" where
  \<comment> \<open>\<^verbatim>\<open>/^\d+(px|em|rem|vh|vw|%|deg|s|ms)$/i\<close>\<close>
  "cssUnitsPattern s =
     (takeWhile isDigit s \<noteq> [] \<and>
      toLowerCase (dropWhile isDigit s) \<in>
        set [''px'', ''em'', ''rem'', ''vh'', ''vw'', ''%'', ''deg'', ''s'', ''ms''])"

definition cssClassesPattern :: "string \<Rightarrow> bool" where
  \<comment> \<open>\<^verbatim>\<open>/^(h-|w-|px-|py-|mx-|my-|bg-|text-|border-|rounded-|flex|grid|block|inline|hidden)/\<close>\<close>
  "cssClassesPattern s =
     list_ex (startsWith s)
       [''h-'', ''w-'', ''px-'', ''py-'', ''mx-'', ''my-'', ''bg-'', ''text-'', ''border-'',
        ''rounded-'', ''flex'', ''grid'', ''block'', ''inline'', ''hidden'']"

definition hexColorsPattern :: "string \<Rightarrow> bool" where
  \<comment> \<open>\<^verbatim>\<open>/^#[0-9a-fA-F]{3,8}$/\<close>\<close>
  "hexColorsPattern s =
     (case s of [] \<Rightarrow> False
      | c # hs \<Rightarrow> c = CHR ''#'' \<and> 3 \<le> length hs \<and> length hs \<le> 8 \<and> list_all isHexDigit hs)"

definition urlsPattern :: "string \<Rightarrow> bool" where
  \<comment> \<open>\<^verbatim>\<open>/^https?:\/\/|^www\.|^\/[\/\w.-]+/\<close>\<close>
  "urlsPattern s =
     (startsWith s ''http://'' \<or> startsWith s ''https://'' \<or> startsWith s ''www.''
      \<or> (case s of c # d # _ \<Rightarrow> c = CHR ''/'' \<and> (d \<in> set ''/.-'' \<or> isWordChar d)
          | _ \<Rightarrow> False))"

definition getDefaultValidationRules :: "ValidationRule list" where
  "getDefaultValidationRules = [
     \<lparr> name = ''template-literal'', pattern = templateLiteralPattern,
       description = ''Template literal fragments'', severity = Error \<rparr>,
     \<lparr> name = ''conditional-expression'', pattern = conditionalExpressionPattern,
       description = ''Conditional expressions'', severity = Error \<rparr>,
     \<lparr> name = ''jsx-expression'', pattern = jsxExpressionPattern,
       description = ''JSX expressions or HTML tags'', severity = Error \<rparr>,
     \<lparr> name = ''code-keywords'', pattern = codeKeywordsPattern,
       description = ''JavaScript/TypeScript keywords'', severity = Error \<rparr>,
     \<lparr> name = ''css-units'', pattern = cssUnitsPattern,
       description = ''CSS units'', severity = Warning \<rparr>,
     \<lparr> name = ''css-classes'', pattern = cssClassesPattern,
       description = ''CSS class names'', severity = Warning \<rparr>,
     \<lparr> name = ''hex-colors'', pattern = hexColorsPattern,
       description = ''Hex color codes'', severity = Info \<rparr>,
     \<lparr> name = ''urls'', pattern = urlsPattern,
       description = ''URLs and file paths'', severity = Info \<rparr> ]"

definition getDefaultTechnicalTerms :: "string list" where
  "getDefaultTechnicalTerms = [
     ''true'', ''false'', ''null'', ''undefined'', ''NaN'', ''auto'', ''none'', ''inherit'',
     ''initial'', ''unset'', ''block'', ''inline'', ''flex'', ''grid'', ''center'', ''left'',
     ''right'', ''top'', ''bottom'', ''submit'', ''button'', ''text'', ''email'', ''password'',
     ''loading'', ''error'', ''success'', ''warning'', ''info'', ''debug'', ''GET'', ''POST'',
     ''PUT'', ''DELETE'', ''PATCH'', ''HEAD'', ''OPTIONS'', ''React'', ''Component'',
     ''useState'', ''useEffect'', ''useCallback'', ''useMemo'', ''JSX'', ''HTML'', ''CSS'',
     ''JavaScript'', ''TypeScript'', ''JSON'', ''XML'', ''API'', ''HTTP'', ''HTTPS'', ''URL'',
     ''URI'', ''DOM'', ''BOM'']"

section \<open>The fragment classifier (utils/TextValidator.ts)\<close>

definition isNumberText :: "string \<Rightarrow> bool" where
  \<comment> \<open>\<^verbatim>\<open>/^\d+(\.\d+)?$/\<close>\<close>
  "isNumberText s =
     (takeWhile isDigit s \<noteq> [] \<and>
      (case dropWhile isDigit s of [] \<Rightarrow> True
       | c # ds \<Rightarrow> c = CHR ''.'' \<and> ds \<noteq> [] \<and> list_all isDigit ds))"

definition hasFileExtension :: "string \<Rightarrow> bool" where
  \<comment> \<open>\<^verbatim>\<open>/\.[a-zA-Z]{2,4}$/\<close>: the letters that end the text are two to four, after a dot\<close>
  "hasFileExtension s =
     (let n = length (takeWhile isAsciiLetter (rev s))
      in 2 \<le> n \<and> n \<le> 4 \<and> startsWith (dropWhile isAsciiLetter (rev s)) ''.'')"

definition isPath :: "string \<Rightarrow> bool" where
  "isPath s =
     (if (case s of [] \<Rightarrow> False | c # _ \<Rightarrow> c = CHR ''.'' \<or> c = CHR ''/'')
         \<or> (case s of c # d # e # _ \<Rightarrow> isAsciiLetter c \<and> d = CHR '':'' \<and> e = CHR 0x5C
             | _ \<Rightarrow> False)
      then True
      else if startsWith s ''http://'' \<or> startsWith s ''https://'' \<or> startsWith s ''www.''
      then True
      else if str_includes s ''/'' \<and> \<not> str_includes s '' '' then True
      else if hasFileExtension s then True
      else False)"

fun firstErrorRule :: "ValidationRule list \<Rightarrow> string \<Rightarrow> string option" where
  \<comment> \<open>the loop over the rules: the name of the first rule of severity error that matches\<close>
  "firstErrorRule [] s = None"
| "firstErrorRule (r # rs) s =
     (if severity r = Error \<and> pattern r s then Some (name r) else firstErrorRule rs s)"

fun matchesCustomPattern :: "(string \<Rightarrow> bool) option list \<Rightarrow> string \<Rightarrow> bool" where
  \<comment> \<open>the loop over the custom skip patterns; one that does not compile is passed over\<close>
  "matchesCustomPattern [] s = False"
| "matchesCustomPattern (None # ps) s = matchesCustomPattern ps s"
| "matchesCustomPattern (Some m # ps) s = (m s \<or> matchesCustomPattern ps s)"

definition skipReason :: "I18nConfig \<Rightarrow> string \<Rightarrow> string option" where
  \<comment> \<open>the checks of \<^verbatim>\<open>isValidTranslationText\<close> in their order: the reason handed to
      \<^verbatim>\<open>recordSkip\<close> by the first check that rejects, \<open>None\<close> when the text is accepted.
      The validator takes its rules and technical terms from the package defaults.\<close>
  "skipReason cfg txt =
     (let v = validation cfg; cleanText = trim txt in
      if txt = [] then Some ''empty-or-invalid''
      else if int (length cleanText) < minLength v then Some ''too-short''
      else if int (length cleanText) > maxLength v then Some ''too-long''
      else if skipTechnicalTerms v \<and> toLowerCase cleanText \<in> set getDefaultTechnicalTerms
        then Some ''technical-term''
      else if skipNumbers v \<and> isNumberText cleanText then Some ''number''
      else if skipPaths v \<and> isPath cleanText then Some ''path''
      else (case (if skipCodeFragments v then firstErrorRule getDefaultValidationRules cleanText
                  else None) of
              Some rule \<Rightarrow> Some (''rule-'' @ rule)
            | None \<Rightarrow>
               if matchesCustomPattern (customSkipPatterns v) cleanText then Some ''custom-pattern''
               else if \<not> list_ex isLetter cleanText then Some ''no-letters''
               else if cleanText \<noteq> [] \<and> list_all (\<lambda>c. \<not> isWordChar c \<and> \<not> isSpace c) cleanText
                 then Some ''symbols-only''
               else None))"

definition isValidTranslationText :: "I18nConfig \<Rightarrow> string \<Rightarrow> bool" where
  "isValidTranslationText cfg txt = (skipReason cfg txt = None)"

section \<open>Key derivation (TextValidator.suggestKeyName)\<close>

fun hashLoop :: "32 word \<Rightarrow> string \<Rightarrow> 32 word" where
  \<comment> \<open>the loop of \<^verbatim>\<open>createHash\<close>: \<^verbatim>\<open>hash = (hash << 5) - hash + char; hash = hash & hash\<close>.
      The value is a 32-bit integer after each round, so the arithmetic is that of
      \<^typ>\<open>32 word\<close>.\<close>
  "hashLoop h [] = h"
| "hashLoop h (c # cs) =
     hashLoop (let h' = push_bit 5 h - h + of_nat (charCode c) in h' AND h') cs"

definition digit36 :: "int \<Rightarrow> char" where
  "digit36 d = (if d < 10 then char_of (48 + d) else char_of (87 + d))"

function toString36 :: "int \<Rightarrow> string" where
  \<comment> \<open>\<^verbatim>\<open>n.toString(36)\<close> of a non-negative integer\<close>
  "toString36 n = (if n < 36 then [digit36 n] else toString36 (n div 36) @ [digit36 (n mod 36)])"
  by pat_completeness auto
termination
  by (relation "measure nat") auto

definition createHash :: "string \<Rightarrow> string" where
  \<comment> \<open>\<^verbatim>\<open>`text_${Math.abs(hash).toString(36)}`\<close>\<close>
  "createHash txt = ''text_'' @ toString36 \<bar>sint (hashLoop 0 txt)\<bar>"

function collapseSpaces :: "string \<Rightarrow> string" where
  \<comment> \<open>\<^verbatim>\<open>.replace(/\s+/g, '_')\<close>\<close>
  "collapseSpaces [] = []"
| "collapseSpaces (c # cs) =
     (if isSpace c then CHR ''_'' # collapseSpaces (dropWhile isSpace cs)
      else c # collapseSpaces cs)"
  by pat_completeness auto
termination
  by (relation "measure length") (auto simp: length_dropWhile_le less_Suc_eq_le)

definition createPathBasedKey :: "string \<Rightarrow> string" where
  "createPathBasedKey txt =
     take 50 (collapseSpaces (trim
       (filter (\<lambda>c. isLower c \<or> isDigit c \<or> isSpace c) (toLowerCase txt))))"

function splitSpaces :: "string \<Rightarrow> string list" where
  \<comment> \<open>\<^verbatim>\<open>.split(/\s+/)\<close>: the pieces between the runs of white space, an empty piece before a
      run that starts the string and after one that ends it\<close>
  "splitSpaces s =
     (case dropWhile (\<lambda>c. \<not> isSpace c) s of
        [] \<Rightarrow> [s]
      | r # rs \<Rightarrow> takeWhile (\<lambda>c. \<not> isSpace c) s # splitSpaces (dropWhile isSpace rs))"
  by pat_completeness auto
termination
proof (relation "measure length")
  fix s :: string and r rs
  assume a: "dropWhile (\<lambda>c. \<not> isSpace c) s = r # rs"
  have "length (dropWhile isSpace rs) \<le> length rs"
    by (rule length_dropWhile_le)
  moreover have "length (r # rs) \<le> length s"
    using length_dropWhile_le [of "\<lambda>c. \<not> isSpace c" s] a by simp
  ultimately show "(dropWhile isSpace rs, s) \<in> measure length"
    by simp
qed simp

definition createCustomKey :: "string \<Rightarrow> string" where
  "createCustomKey txt =
     join ''_'' (filter (\<lambda>w. length w > 0)
       (map (\<lambda>w. filter isLower (toLowerCase w)) (take 3 (splitSpaces txt))))"

definition suggestKeyName :: "string \<Rightarrow> keyStrategy \<Rightarrow> string" where
  "suggestKeyName txt strategy =
     (let cleanText = trim txt in
      case strategy of
        HashStrategy \<Rightarrow> createHash cleanText
      | PathStrategy \<Rightarrow> createPathBasedKey cleanText
      | CustomStrategy \<Rightarrow> createCustomKey cleanText
      | TextStrategy \<Rightarrow> cleanText)"

section \<open>The key registry (I18nTransformer.translationKeys)\<close>

text \<open>
  \<^verbatim>\<open>translationKeys\<close> is a \<^verbatim>\<open>Map\<close> from text to key. The model is an association list in
  insertion order, without two entries for one text: \<^verbatim>\<open>has\<close> and \<^verbatim>\<open>get\<close> are
  \<^const>\<open>map_of\<close>, \<^verbatim>\<open>set\<close> is \<^const>\<open>AList.update\<close> (a present text keeps its place, a new
  one goes to the end).
\<close>

type_synonym registry = "(string \<times> string) list"

definition getOrCreateKey :: "I18nConfig \<Rightarrow> registry \<Rightarrow> string \<Rightarrow> string \<times> registry" where
  "getOrCreateKey cfg reg txt =
     (let cleanText = trim txt in
      case map_of reg cleanText of
        Some key \<Rightarrow> (key, reg)
      | None \<Rightarrow>
          (let key = suggestKeyName cleanText (keyStrategyOf (format cfg))
           in (key, AList.update cleanText key reg)))"

fun resolveAll :: "I18nConfig \<Rightarrow> registry \<Rightarrow> string list \<Rightarrow> registry" where
  \<comment> \<open>the registry after the resolutions of a run, in their order\<close>
  "resolveAll cfg reg [] = reg"
| "resolveAll cfg reg (t # ts) = resolveAll cfg (snd (getOrCreateKey cfg reg t)) ts"

section \<open>Catalogs\<close>

subsection \<open>JSON values and plain objects\<close>

text \<open>
  The values \<^verbatim>\<open>readJson\<close> gives and \<^verbatim>\<open>writeJson\<close> takes. A number is kept as an integer: the
  run observes of a number only whether it is zero.
\<close>

datatype jsonValue = JString string | JNumber int | JBool bool | JNull
  | JObject "(string \<times> jsonValue) list" | JArray "jsonValue list"

text \<open>
  A plain object (\<^verbatim>\<open>{}\<close>, or an object that \<^verbatim>\<open>JSON.parse\<close> made) is the list of its own
  properties in the order \<^verbatim>\<open>Object.keys\<close> and \<^verbatim>\<open>JSON.stringify\<close> enumerate them: the keys
  that are array indices first, by their number, then the other keys in the order of their
  creation. No key occurs twice. Its prototype is \<^verbatim>\<open>Object.prototype\<close>.
\<close>

type_synonym 'v members = "(string \<times> 'v) list"

definition decimalValue :: "string \<Rightarrow> int" where
  "decimalValue k = foldl (\<lambda>n c. 10 * n + (int (charCode c) - 48)) 0 k"

definition isArrayIndex :: "string \<Rightarrow> bool" where
  \<comment> \<open>the canonical decimal form of an integer from 0 to 2^32 - 2\<close>
  "isArrayIndex k =
     (k \<noteq> [] \<and> list_all isDigit k \<and> (hd k \<noteq> CHR ''0'' \<or> length k = 1) \<and> length k \<le> 10
      \<and> decimalValue k < 4294967295)"

fun insertMember :: "string \<Rightarrow> 'v \<Rightarrow> 'v members \<Rightarrow> 'v members" where
  \<comment> \<open>a new own property takes its place in the order of enumeration\<close>
  "insertMember k v [] = [(k, v)]"
| "insertMember k v ((k', v') # ms) =
     (if isArrayIndex k \<and> (\<not> isArrayIndex k' \<or> decimalValue k < decimalValue k')
      then (k, v) # (k', v') # ms
      else (k', v') # insertMember k v ms)"

definition defineMember :: "string \<Rightarrow> 'v \<Rightarrow> 'v members \<Rightarrow> 'v members" where
  \<comment> \<open>\<^verbatim>\<open>CreateDataProperty\<close>, the step of \<^verbatim>\<open>JSON.parse\<close> for one member of the text: a key
      that is present gets the new value and keeps its place\<close>
  "defineMember k v ms =
     (case map_of ms k of Some _ \<Rightarrow> AList.update k v ms | None \<Rightarrow> insertMember k v ms)"

definition parseMembers :: "'v members \<Rightarrow> 'v members" where
  \<comment> \<open>the object \<^verbatim>\<open>JSON.parse\<close> makes of the members of an object text, in their order\<close>
  "parseMembers ms = foldl (\<lambda>obj (k, v). defineMember k v obj) [] ms"

definition objectPrototypeNames :: "string list" where
  \<comment> \<open>the properties of \<^verbatim>\<open>Object.prototype\<close>, which every plain object inherits\<close>
  "objectPrototypeNames =
     [''constructor'', ''__defineGetter__'', ''__defineSetter__'', ''hasOwnProperty'',
      ''__lookupGetter__'', ''__lookupSetter__'', ''isPrototypeOf'', ''propertyIsEnumerable'',
      ''toString'', ''valueOf'', ''__proto__'', ''toLocaleString'']"

datatype 'v member = Own 'v | Inherited | Undefined

definition getMember :: "'v members \<Rightarrow> string \<Rightarrow> 'v member" where
  \<comment> \<open>\<^verbatim>\<open>obj[key]\<close>: the own property, else the one inherited from \<^verbatim>\<open>Object.prototype\<close> (a
      function, or for \<^verbatim>\<open>__proto__\<close> the prototype itself), else \<^verbatim>\<open>undefined\<close>\<close>
  "getMember ms k =
     (case map_of ms k of
        Some v \<Rightarrow> Own v
      | None \<Rightarrow> if k \<in> set objectPrototypeNames then Inherited else Undefined)"

definition setMember :: "string \<Rightarrow> 'v \<Rightarrow> 'v members \<Rightarrow> 'v members" where
  \<comment> \<open>\<^verbatim>\<open>obj[key] = v\<close>: an own property gets the value; a new key becomes an own property,
      but for \<^verbatim>\<open>__proto__\<close>, where the assignment reaches the setter of \<^verbatim>\<open>Object.prototype\<close>
      and leaves the own properties as they are\<close>
  "setMember k v ms =
     (case map_of ms k of
        Some _ \<Rightarrow> AList.update k v ms
      | None \<Rightarrow> if k = ''__proto__'' then ms else insertMember k v ms)"

definition truthy :: "jsonValue \<Rightarrow> bool" where
  \<comment> \<open>JavaScript's truthiness of a JSON value\<close>
  "truthy v = (case v of JString s \<Rightarrow> s \<noteq> [] | JNumber n \<Rightarrow> n \<noteq> 0 | JBool b \<Rightarrow> b
               | JNull \<Rightarrow> False | JObject _ \<Rightarrow> True | JArray _ \<Rightarrow> True)"

function showNat :: "nat \<Rightarrow> string" where
  \<comment> \<open>\<^verbatim>\<open>String(n)\<close> of an index\<close>
  "showNat n = (if n < 10 then [char_of (48 + n)] else showNat (n div 10) @ [char_of (48 + n mod 10)])"
  by pat_completeness auto
termination
  by (relation "measure id") auto

definition objectEntries :: "jsonValue \<Rightarrow> string + jsonValue members" where
  \<comment> \<open>\<^verbatim>\<open>Object.entries(value)\<close>: the own properties of an object, the elements of an array
      and the code units of a string under their indices, nothing for a boolean or a
      number, a \<^verbatim>\<open>TypeError\<close> for \<^verbatim>\<open>null\<close>\<close>
  "objectEntries v =
     (case v of
        JObject ms \<Rightarrow> Inr ms
      | JArray xs \<Rightarrow> Inr (zip (map showNat [0 ..< length xs]) xs)
      | JString s \<Rightarrow> Inr (zip (map showNat [0 ..< length s]) (map (\<lambda>c. JString [c]) s))
      | JNull \<Rightarrow> Inl ''Cannot convert undefined or null to object''
      | _ \<Rightarrow> Inr [])"

subsection \<open>The source-language catalog\<close>

type_synonym catalog = "string members"

definition asJson :: "catalog \<Rightarrow> jsonValue" where
  \<comment> \<open>the catalog as the JSON value that \<^verbatim>\<open>writeJson\<close> writes\<close>
  "asJson cat = JObject (map (\<lambda>(k, v). (k, JString v)) cat)"

definition sortObjectKeys :: "'v members \<Rightarrow> 'v members" where
  \<comment> \<open>\<^verbatim>\<open>Object.keys(obj).sort().forEach((key) => { sorted[key] = obj[key]; })\<close>; the sort
      compares code units\<close>
  "sortObjectKeys obj =
     foldl (\<lambda>sorted key. case map_of obj key of
                             Some v \<Rightarrow> setMember key v sorted
                           | None \<Rightarrow> sorted)
           [] (sort (map fst obj))"

definition sourceTranslationsOf :: "registry \<Rightarrow> catalog" where
  \<comment> \<open>\<^verbatim>\<open>translationKeys.forEach((key, text) => { sourceTranslations[key] = text; })\<close>\<close>
  "sourceTranslationsOf reg = foldl (\<lambda>obj (txt, key). setMember key txt obj) [] reg"

definition generateSourceCatalog :: "I18nConfig \<Rightarrow> registry \<Rightarrow> catalog" where
  \<comment> \<open>the object that \<^verbatim>\<open>generateTranslationFiles\<close> writes to the source-language file\<close>
  "generateSourceCatalog cfg reg =
     (let sourceTranslations = sourceTranslationsOf reg
      in if sortKeys (format cfg) then sortObjectKeys sourceTranslations else sourceTranslations)"

definition loadExistingTranslations :: "I18nConfig \<Rightarrow> jsonValue members \<Rightarrow> registry \<Rightarrow> registry" where
  \<comment> \<open>the seeding of the registry from the entries of an existing source-language file:
      \<^verbatim>\<open>if (typeof value === 'string' && isValidTranslationText(value)) translationKeys.set(value, key)\<close>\<close>
  "loadExistingTranslations cfg entries reg =
     foldl (\<lambda>r (key, v). case v of
                JString s \<Rightarrow> if isValidTranslationText cfg s then AList.update s key r else r
              | _ \<Rightarrow> r)
           reg entries"

definition withStrategy :: "keyStrategy \<Rightarrow> I18nConfig" where
  \<comment> \<open>the default configuration with another \<^verbatim>\<open>format.keyStrategy\<close>\<close>
  "withStrategy s = getDefaultConfig\<lparr> format := (format getDefaultConfig)\<lparr> keyStrategyOf := s \<rparr> \<rparr>"

definition identityKeys :: "registry \<Rightarrow> bool" where
  \<comment> \<open>every key of the registry is its text\<close>
  "identityKeys reg = list_all (\<lambda>(c, k). k = c) reg"

subsection \<open>Two runs\<close>




subsection \<open>Target-language catalogs (generateTranslationFiles)\<close>

definition addKeyIfMissing :: "jsonValue members \<Rightarrow> string \<Rightarrow> jsonValue members" where
  \<comment> \<open>\<^verbatim>\<open>if (!targetTranslations[key]) { targetTranslations[key] = ''; }\<close> on a plain object\<close>
  "addKeyIfMissing targetTranslations key =
     (case getMember targetTranslations key of
        Own v \<Rightarrow> if truthy v then targetTranslations
                 else setMember key (JString []) targetTranslations
      | Inherited \<Rightarrow> targetTranslations
      | Undefined \<Rightarrow> setMember key (JString []) targetTranslations)"

definition addNewKeys :: "catalog \<Rightarrow> jsonValue members \<Rightarrow> jsonValue members" where
  \<comment> \<open>\<^verbatim>\<open>Object.keys(sortedTranslations).forEach((key) => ...)\<close>\<close>
  "addNewKeys sortedTranslations targetTranslations =
     foldl addKeyIfMissing targetTranslations (map fst sortedTranslations)"

definition targetObject :: "I18nConfig \<Rightarrow> catalog \<Rightarrow> jsonValue members \<Rightarrow> jsonValue members" where
  \<comment> \<open>\<^verbatim>\<open>sortedTarget\<close>, when \<^verbatim>\<open>targetTranslations\<close> is a plain object\<close>
  "targetObject cfg sortedTranslations targetTranslations =
     (let merged = addNewKeys sortedTranslations targetTranslations
      in if sortKeys (format cfg) then sortObjectKeys merged else merged)"

datatype fileRead = Missing | Unreadable string | Content jsonValue

text \<open>
  What the run finds at the path of a catalog: no file (\<^verbatim>\<open>pathExists\<close> is false), a file
  that \<^verbatim>\<open>readJson\<close> fails on (with the error's message), or a JSON value.
\<close>

definition existingOrEmpty :: "fileRead \<Rightarrow> jsonValue" where
  \<comment> \<open>\<^verbatim>\<open>targetTranslations\<close> after the attempt to load the file: it stays \<^verbatim>\<open>{}\<close> unless the
      file was read\<close>
  "existingOrEmpty existing = (case existing of Content v \<Rightarrow> v | _ \<Rightarrow> JObject [])"


section \<open>The rewrite pass (transformJSXElements)\<close>

text \<open>
  \<^verbatim>\<open>content.replace(pattern, callback)\<close> with a global pattern: the input is scanned from the
  left; at each position the pattern either matches, giving the matched text and its groups,
  or does not. A match is handed to the callback, whose result replaces it, and the scan goes
  on behind the match; a character at which nothing matches is copied. (Behind an empty match
  the scan copies one character and goes on; none of the patterns below matches the empty
  string.) The callbacks of the rewrite pass change the registry and the counter, which are
  threaded through the scan as the state \<open>st\<close>.
\<close>

type_synonym matcher = "string \<Rightarrow> (string \<times> string list) option"

function replaceAll ::
  "matcher \<Rightarrow> ('s \<Rightarrow> string \<Rightarrow> string list \<Rightarrow> string \<times> 's) \<Rightarrow> 's \<Rightarrow> string \<Rightarrow> string \<times> 's" where
  "replaceAll m f st [] = ([], st)"
| "replaceAll m f st (c # cs) =
     (case m (c # cs) of
        None \<Rightarrow> (let (out, st') = replaceAll m f st cs in (c # out, st'))
      | Some (matched, groups) \<Rightarrow>
          (let (replacement, st1) = f st matched groups;
               (out, st2) = replaceAll m f st1 (drop (length matched - 1) cs)
           in (replacement @ (if matched = [] then [c] else []) @ out, st2)))"
  by pat_completeness auto
termination
  by (relation "measure (\<lambda>(m, f, st, s). length s)") auto

text \<open>
  A pattern is given by its match at the head of the input. In each pattern below a repeated
  character class is followed by a character outside the class, so the longest run is the
  only one that can match and no backtracking arises.
\<close>

definition jsxTextChar :: "char \<Rightarrow> bool" where
  "jsxTextChar c = (c \<notin> set ''<>{'')"

definition jsxTextPattern :: matcher where
  \<comment> \<open>\<^verbatim>\<open>/>([^<>{]+)</g\<close>\<close>
  "jsxTextPattern s =
     (case s of
        [] \<Rightarrow> None
      | c # cs \<Rightarrow>
          (let txt = takeWhile jsxTextChar cs
           in if c = CHR ''>'' \<and> txt \<noteq> [] \<and> startsWith (dropWhile jsxTextChar cs) ''<''
              then Some (''>'' @ txt @ ''<'', [txt]) else None))"

definition isQuote :: "char \<Rightarrow> bool" where
  "isQuote c = (c = CHR 0x22 \<or> c = CHR 0x27)"

definition attributePattern :: "string \<Rightarrow> matcher" where
  \<comment> \<open>\<^verbatim>\<open>/NAME=["']([^"']+)["']/g\<close> for the attribute NAME\<close>
  "attributePattern attr s =
     (if startsWith s (attr @ ''='') then
        (case drop (length attr + 1) s of
           [] \<Rightarrow> None
         | q # r \<Rightarrow>
            (let txt = takeWhile (\<lambda>c. \<not> isQuote c) r
             in case dropWhile (\<lambda>c. \<not> isQuote c) r of
                  [] \<Rightarrow> None
                | q' # _ \<Rightarrow>
                    if isQuote q \<and> txt \<noteq> []
                    then Some (attr @ ''='' @ [q] @ txt @ [q'], [txt]) else None))
      else None)"

definition escapeQuotes :: "string \<Rightarrow> string" where
  \<comment> \<open>\<^verbatim>\<open>key.replace(/'/g, "\\'")\<close>\<close>
  "escapeQuotes key = concat (map (\<lambda>c. if c = CHR 0x27 then [CHR 0x5C, CHR 0x27] else [c]) key)"

definition alreadyTransformed :: "string \<Rightarrow> bool" where
  \<comment> \<open>\<^verbatim>\<open>match.includes("{t('") || match.includes('t("')\<close>\<close>
  "alreadyTransformed matched =
     (str_includes matched [CHR ''{'', CHR ''t'', CHR ''('', CHR 0x27]
      \<or> str_includes matched [CHR ''t'', CHR ''('', CHR 0x22])"

definition translationCall :: "string \<Rightarrow> string" where
  \<comment> \<open>\<^verbatim>\<open>{t('KEY')}\<close> with the quotes of the key escaped\<close>
  "translationCall key = [CHR ''{'', CHR ''t'', CHR ''('', CHR 0x27] @ escapeQuotes key
                          @ [CHR 0x27, CHR '')'', CHR ''}'']"

definition jsxTextReplacer ::
  "I18nConfig \<Rightarrow> registry \<times> nat \<Rightarrow> string \<Rightarrow> string list \<Rightarrow> string \<times> (registry \<times> nat)" where
  "jsxTextReplacer cfg st matched groups =
     (case groups of
        [txt] \<Rightarrow>
          (let cleanText = trim txt in
           if alreadyTransformed matched then (matched, st)
           else if isValidTranslationText cfg cleanText then
             (let (key, reg') = getOrCreateKey cfg (fst st) cleanText
              in (''>'' @ translationCall key @ ''<'', (reg', snd st + 1)))
           else (matched, st))
      | _ \<Rightarrow> (matched, st))"

definition attributeReplacer ::
  "I18nConfig \<Rightarrow> registry \<times> nat \<Rightarrow> string \<Rightarrow> string list \<Rightarrow> string \<times> (registry \<times> nat)" where
  "attributeReplacer cfg st matched groups =
     (case groups of
        [txt] \<Rightarrow>
          (if alreadyTransformed matched then (matched, st)
           else if isValidTranslationText cfg txt then
             (let (key, reg') = getOrCreateKey cfg (fst st) txt;
                  attr = takeWhile (\<lambda>c. c \<noteq> CHR ''='') matched
              in (attr @ ''='' @ translationCall key, (reg', snd st + 1)))
           else (matched, st))
      | _ \<Rightarrow> (matched, st))"

definition attributeReplacer_js ::
  "I18nConfig \<Rightarrow> string \<Rightarrow> registry \<times> nat \<Rightarrow> string \<Rightarrow> string list \<Rightarrow> string \<times> (registry \<times> nat)" where
  "attributeReplacer_js cfg attr st matched groups =
     (case groups of
        [txt] \<Rightarrow>
          (if alreadyTransformed matched then (matched, st)
           else if isValidTranslationText cfg txt then
             (let (key, reg') = getOrCreateKey cfg (fst st) txt
              in (attr @ ''='' @ translationCall key, (reg', snd st + 1)))
           else (matched, st))
      | _ \<Rightarrow> (matched, st))"

definition attributeNames :: "string list" where
  "attributeNames = [''placeholder'', ''title'', ''alt'', ''aria-label'']"

definition buttonPattern :: matcher where
  \<comment> \<open>\<^verbatim>\<open>/<([Bb]utton[^>]*)>([^<]+)<\/[Bb]utton>/g\<close>\<close>
  "buttonPattern s =
     (case s of
        c1 # c2 # r \<Rightarrow>
          if c1 = CHR ''<'' \<and> (c2 = CHR ''B'' \<or> c2 = CHR ''b'') \<and> startsWith r ''utton'' then
            (let attributes = c2 # ''utton'' @ takeWhile (\<lambda>c. c \<noteq> CHR ''>'') (drop 5 r)
             in case dropWhile (\<lambda>c. c \<noteq> CHR ''>'') (drop 5 r) of
                  [] \<Rightarrow> None
                | _ # r3 \<Rightarrow>
                   (let buttonText = takeWhile (\<lambda>c. c \<noteq> CHR ''<'') r3;
                        closing = dropWhile (\<lambda>c. c \<noteq> CHR ''<'') r3
                    in if buttonText \<noteq> []
                          \<and> (startsWith closing ''</Button>'' \<or> startsWith closing ''</button>'')
                       then Some (''<'' @ attributes @ ''>'' @ buttonText @ take 9 closing,
                                  [attributes, buttonText])
                       else None))
          else None
      | _ \<Rightarrow> None)"

definition buttonReplacer ::
  "I18nConfig \<Rightarrow> registry \<times> nat \<Rightarrow> string \<Rightarrow> string list \<Rightarrow> string \<times> (registry \<times> nat)" where
  "buttonReplacer cfg st matched groups =
     (case groups of
        [attributes, buttonText] \<Rightarrow>
          (let cleanText = trim buttonText in
           if alreadyTransformed buttonText \<or> str_includes buttonText ''{'' then (matched, st)
           else if isValidTranslationText cfg cleanText then
             (let (key, reg') = getOrCreateKey cfg (fst st) cleanText
              in (''<'' @ attributes @ ''>'' @ translationCall key @ ''</''
                    @ takeWhile (\<lambda>c. c \<noteq> CHR '' '') attributes @ ''>'',
                  (reg', snd st + 1)))
           else (matched, st))
      | _ \<Rightarrow> (matched, st))"

text \<open>
  \<^verbatim>\<open>I18nTransformer.transformJSXElements\<close>: the rewritten content, the registry and the count
  of replacements. (The caller stores the content in the source file when the count is
  positive.)
\<close>

definition transformJSXElements :: "I18nConfig \<Rightarrow> registry \<Rightarrow> string \<Rightarrow> string \<times> registry \<times> nat" where
  "transformJSXElements cfg reg content =
     foldl (\<lambda>(c, st) attr. replaceAll (attributePattern attr) (attributeReplacer cfg) st c)
           (replaceAll jsxTextPattern (jsxTextReplacer cfg) (reg, 0) content)
           attributeNames"

text \<open>
  \<^verbatim>\<open>JavaScriptTransformer.transformJSXElements\<close>: the same two passes, with the attribute
  name taken from the pattern table, and a third pass over button elements.
\<close>

definition transformJSXElements_js :: "I18nConfig \<Rightarrow> registry \<Rightarrow> string \<Rightarrow> string \<times> registry \<times> nat" where
  "transformJSXElements_js cfg reg content =
     (let (c1, st1) = foldl (\<lambda>(c, st) attr.
                               replaceAll (attributePattern attr) (attributeReplacer_js cfg attr) st c)
                         (replaceAll jsxTextPattern (jsxTextReplacer cfg) (reg, 0) content)
                         attributeNames
      in replaceAll buttonPattern (buttonReplacer cfg) st1 c1)"

text \<open>A source text with two image elements, and what the rewrite makes of it.\<close>

definition nestedAltSource :: string where
  \<open>nestedAltSource = ''<img alt="x alt=" /><img alt=\'/alt="Hello World\' />''\<close>

definition nestedAltOnce :: string where
  \<open>nestedAltOnce = ''<img alt={t(\'x alt=\')} /><img alt=\'/alt="Hello World\' />''\<close>

definition nestedAltTwice :: string where
  \<open>nestedAltTwice = ''<img alt={t(\'x alt=\')} /><img alt=\'/alt={t(\'Hello World\')} />''\<close>


section \<open>Component descriptors (analyzeComponent)\<close>

datatype componentType = FunctionComponent | ArrowComponent | ClassComponent | ForwardRefComponent

record ComponentInfo =
  componentName :: string
  componentType :: componentType
  componentFilePath :: string
  hasUseTranslation :: bool
  needsTranslation :: bool

function execAll :: "matcher \<Rightarrow> nat \<Rightarrow> string \<Rightarrow> (nat \<times> string list) list" where
  \<comment> \<open>the loop \<^verbatim>\<open>while ((match = pattern.exec(content)) !== null)\<close> over a global pattern:
      the index and the groups of each match, from the index \<open>i\<close> of the head of the input\<close>
  "execAll m i [] = []"
| "execAll m i (c # cs) =
     (case m (c # cs) of
        None \<Rightarrow> execAll m (i + 1) cs
      | Some (matched, groups) \<Rightarrow>
          (i, groups) # execAll m (i + max 1 (length matched)) (drop (length matched - 1) cs))"
  by pat_completeness auto
termination
  by (relation "measure (\<lambda>(m, i, s). length s)") auto

definition groupIsValid :: "I18nConfig \<Rightarrow> nat \<times> string list \<Rightarrow> bool" where
  "groupIsValid cfg found = (case snd found of t # _ \<Rightarrow> isValidTranslationText cfg t | [] \<Rightarrow> False)"

definition quickAttributeNames :: "string list" where
  "quickAttributeNames = [''placeholder'', ''title'', ''alt'', ''aria-label'']"

definition hasExtractableText :: "I18nConfig \<Rightarrow> string \<Rightarrow> bool" where
  "hasExtractableText cfg content =
     (list_ex (groupIsValid cfg) (execAll jsxTextPattern 0 content)
      \<or> list_ex (\<lambda>attr. list_ex (groupIsValid cfg) (execAll (attributePattern attr) 0 content))
            quickAttributeNames)"

definition baseName :: "string \<Rightarrow> string" where
  \<comment> \<open>\<^verbatim>\<open>path.basename(p)\<close> for a path with forward slashes and no trailing slash\<close>
  "baseName p = rev (takeWhile (\<lambda>c. c \<noteq> CHR ''/'') (rev p))"

definition extName :: "string \<Rightarrow> string" where
  \<comment> \<open>\<^verbatim>\<open>path.extname(p)\<close>: from the last dot of the base name, unless that dot starts it\<close>
  "extName p =
     (let b = baseName p; afterDot = takeWhile (\<lambda>c. c \<noteq> CHR ''.'') (rev b)
      in if CHR ''.'' \<in> set b \<and> length afterDot + 1 < length b
         then CHR ''.'' # rev afterDot else [])"

definition fileNameOf :: "string \<Rightarrow> string" where
  \<comment> \<open>\<^verbatim>\<open>path.basename(filePath, path.extname(filePath))\<close>\<close>
  "fileNameOf p = take (length (baseName p) - length (extName p)) (baseName p)"

subsection \<open>The parse-tree strategy (I18nTransformer)\<close>

text \<open>
  What \<^verbatim>\<open>analyzeComponent\<close> and the hook insertion read of a ts-morph source file: its path
  and text, the module specifiers of its import declarations, and its top-level function
  declarations, variable statements and class declarations, in the order of the file.
\<close>

datatype initializerKind = ArrowFunction bool | FunctionExpression | OtherExpression

record FunctionDeclaration =
  functionName :: "string option"
  functionExported :: bool
  functionHasBlockBody :: bool

record VariableDeclaration =
  variableName :: string
  variableInitializer :: "initializerKind option"

record ClassDeclaration =
  className :: "string option"
  classExported :: bool
  classConstructors :: nat

record SourceFile =
  getFilePath :: string
  getFullText :: string
  getImportDeclarations :: "string list"
  getFunctions :: "FunctionDeclaration list"
  getVariableStatements :: "VariableDeclaration list list"
  getClasses :: "ClassDeclaration list"

definition importsTranslation :: "I18nConfig \<Rightarrow> SourceFile \<Rightarrow> bool" where
  "importsTranslation cfg sf =
     list_ex (\<lambda>spec. spec = ''react-i18next'' \<or> Some spec = customHookImport (components cfg))
             (getImportDeclarations sf)"

definition nameOr :: "string option \<Rightarrow> string \<Rightarrow> string" where
  \<comment> \<open>\<^verbatim>\<open>node.getName() || fileName\<close>\<close>
  "nameOr n fileName = (case n of Some s \<Rightarrow> if s = [] then fileName else s | None \<Rightarrow> fileName)"

definition isFunctionInitializer :: "VariableDeclaration \<Rightarrow> bool" where
  "isFunctionInitializer d =
     (case variableInitializer d of
        Some (ArrowFunction _) \<Rightarrow> True | Some FunctionExpression \<Rightarrow> True | _ \<Rightarrow> False)"

definition detectComponent :: "SourceFile \<Rightarrow> string \<Rightarrow> string \<times> componentType" where
  "detectComponent sf fileName =
     (if length (getFunctions sf) > 0 then
        (case find functionExported (getFunctions sf) of
           Some f \<Rightarrow> (nameOr (functionName f) fileName, FunctionComponent)
         | None \<Rightarrow> (fileName, FunctionComponent))
      else if length (getVariableStatements sf) > 0 then
        foldl (\<lambda>found stmt. case find isFunctionInitializer stmt of
                               Some d \<Rightarrow> (variableName d, ArrowComponent)
                             | None \<Rightarrow> found)
              (fileName, FunctionComponent) (getVariableStatements sf)
      else if length (getClasses sf) > 0 then
        (case find classExported (getClasses sf) of
           Some c \<Rightarrow> (nameOr (className c) fileName, ClassComponent)
         | None \<Rightarrow> (fileName, FunctionComponent))
      else (fileName, FunctionComponent))"

definition analyzeComponent :: "I18nConfig \<Rightarrow> SourceFile \<Rightarrow> ComponentInfo" where
  "analyzeComponent cfg sf =
     (let fileName = fileNameOf (getFilePath sf);
          (cname, ctype) = detectComponent sf fileName
      in \<lparr> componentName = cname, componentType = ctype, componentFilePath = getFilePath sf,
           hasUseTranslation = importsTranslation cfg sf,
           needsTranslation = hasExtractableText cfg (getFullText sf) \<rparr>)"

subsection \<open>The pattern strategy (JavaScriptTransformer)\<close>

text \<open>
  The patterns of the pattern strategy, each given by its match at the head of the input.
  The pieces: a literal, \<^verbatim>\<open>\s+\<close>, \<^verbatim>\<open>\s*\<close> and \<^verbatim>\<open>\w+\<close> (each followed in its pattern by
  a character outside its class, so the longest run is the only candidate), and \<^verbatim>\<open>.*LITERAL\<close>,
  which finds the literal later on the same line. A pattern is searched from every position
  of the content, the leftmost match being the one \<^verbatim>\<open>test\<close> and \<^verbatim>\<open>match\<close> report.
\<close>

definition lit :: "string \<Rightarrow> string \<Rightarrow> string option" where
  "lit p s = (if startsWith s p then Some (drop (length p) s) else None)"

definition spaces1 :: "string \<Rightarrow> string option" where
  "spaces1 s = (if takeWhile isSpace s = [] then None else Some (dropWhile isSpace s))"

definition spaces0 :: "string \<Rightarrow> string option" where
  "spaces0 s = Some (dropWhile isSpace s)"

definition word1 :: "string \<Rightarrow> (string \<times> string) option" where
  "word1 s = (if takeWhile isWordChar s = [] then None
              else Some (takeWhile isWordChar s, dropWhile isWordChar s))"

fun firstMatch :: "(string \<Rightarrow> 'a option) \<Rightarrow> string \<Rightarrow> 'a option" where
  "firstMatch p [] = p []"
| "firstMatch p (c # cs) = (case p (c # cs) of Some r \<Rightarrow> Some r | None \<Rightarrow> firstMatch p cs)"

definition isLineTerminator :: "char \<Rightarrow> bool" where
  "isLineTerminator c = (charCode c = 10 \<or> charCode c = 13)"

fun laterOnLine :: "string \<Rightarrow> string \<Rightarrow> string option" where
  "laterOnLine p [] = lit p []"
| "laterOnLine p (c # cs) =
     (if startsWith (c # cs) p then Some (drop (length p) (c # cs))
      else if isLineTerminator c then None
      else laterOnLine p cs)"

text \<open>\<^verbatim>\<open>/import.*useTranslation.*from.*TARGET/\<close>\<close>

definition importLineAt :: "string \<Rightarrow> string \<Rightarrow> unit option" where
  "importLineAt target s =
     do { r1 \<leftarrow> lit ''import'' s;
          r2 \<leftarrow> laterOnLine ''useTranslation'' r1;
          r3 \<leftarrow> laterOnLine ''from'' r2;
          r4 \<leftarrow> laterOnLine target r3;
          Some () }"

definition importsTranslation_js :: "string \<Rightarrow> bool" where
  "importsTranslation_js content =
     (firstMatch (importLineAt ''react-i18next'') content \<noteq> None
      \<or> firstMatch (importLineAt ''@/'') content \<noteq> None)"

text \<open>\<^verbatim>\<open>/class\s+\w+\s+extends\s+(React\.)?Component/\<close>\<close>

definition classComponentAt :: "string \<Rightarrow> unit option" where
  "classComponentAt s =
     do { r1 \<leftarrow> lit ''class'' s;
          r2 \<leftarrow> spaces1 r1;
          (w, r3) \<leftarrow> word1 r2;
          r4 \<leftarrow> spaces1 r3;
          r5 \<leftarrow> lit ''extends'' r4;
          r6 \<leftarrow> spaces1 r5;
          if startsWith r6 ''React.Component'' \<or> startsWith r6 ''Component'' then Some () else None }"

text \<open>\<^verbatim>\<open>/class\s+(\w+)\s+extends/\<close>\<close>

definition classNameAt :: "string \<Rightarrow> string option" where
  "classNameAt s =
     do { r1 \<leftarrow> lit ''class'' s;
          r2 \<leftarrow> spaces1 r1;
          (w, r3) \<leftarrow> word1 r2;
          r4 \<leftarrow> spaces1 r3;
          r5 \<leftarrow> lit ''extends'' r4;
          Some w }"

text \<open>\<^verbatim>\<open>/export\s+default\s+function\s+(\w+)/\<close>\<close>

definition defaultFunctionAt :: "string \<Rightarrow> string option" where
  "defaultFunctionAt s =
     do { r1 \<leftarrow> lit ''export'' s;
          r2 \<leftarrow> spaces1 r1;
          r3 \<leftarrow> lit ''default'' r2;
          r4 \<leftarrow> spaces1 r3;
          r5 \<leftarrow> lit ''function'' r4;
          r6 \<leftarrow> spaces1 r5;
          (w, r7) \<leftarrow> word1 r6;
          Some w }"

text \<open>\<^verbatim>\<open>/const\s+(\w+)\s*=\s*\([^)]*\)\s*=>/\<close>\<close>

definition arrowComponentAt :: "string \<Rightarrow> string option" where
  "arrowComponentAt s =
     do { r1 \<leftarrow> lit ''const'' s;
          r2 \<leftarrow> spaces1 r1;
          (w, r3) \<leftarrow> word1 r2;
          r4 \<leftarrow> spaces0 r3;
          r5 \<leftarrow> lit ''='' r4;
          r6 \<leftarrow> spaces0 r5;
          r7 \<leftarrow> lit ''('' r6;
          r8 \<leftarrow> lit '')'' (dropWhile (\<lambda>c. c \<noteq> CHR '')'') r7);
          r9 \<leftarrow> spaces0 r8;
          r10 \<leftarrow> lit ''=>'' r9;
          Some w }"

definition detectComponent_js :: "string \<Rightarrow> string \<Rightarrow> string \<times> componentType" where
  "detectComponent_js content fileName =
     (if firstMatch classComponentAt content \<noteq> None then
        (case firstMatch classNameAt content of
           Some n \<Rightarrow> (n, ClassComponent) | None \<Rightarrow> (fileName, ClassComponent))
      else if firstMatch defaultFunctionAt content \<noteq> None then
        (case firstMatch defaultFunctionAt content of
           Some n \<Rightarrow> (n, FunctionComponent) | None \<Rightarrow> (fileName, FunctionComponent))
      else if firstMatch arrowComponentAt content \<noteq> None then
        (case firstMatch arrowComponentAt content of
           Some n \<Rightarrow> (n, ArrowComponent) | None \<Rightarrow> (fileName, ArrowComponent))
      else (fileName, FunctionComponent))"

definition analyzeComponent_js :: "I18nConfig \<Rightarrow> string \<Rightarrow> string \<Rightarrow> ComponentInfo" where
  "analyzeComponent_js cfg content filePath =
     (let fileName = fileNameOf filePath;
          (cname, ctype) = detectComponent_js content fileName
      in \<lparr> componentName = cname, componentType = ctype, componentFilePath = filePath,
           hasUseTranslation = importsTranslation_js content,
           needsTranslation = hasExtractableText cfg content \<rparr>)"

text \<open>
  A class component with a top-level constant: the text, and what ts-morph reports of it.
\<close>

definition classWithConstText :: string where
  \<open>classWithConstText =
     ''import React from \'react\';'' @ [CHR 0x0A] @
     ''const styles = { color: \'red\' };'' @ [CHR 0x0A] @
     ''export class App extends React.Component {'' @ [CHR 0x0A] @
     ''  render() { return <h1 style={styles}>Welcome</h1>; }'' @ [CHR 0x0A] @
     ''}'' @ [CHR 0x0A]\<close>

definition classWithConstFile :: SourceFile where
  "classWithConstFile = \<lparr>
     getFilePath = ''src/App.tsx'',
     getFullText = classWithConstText,
     getImportDeclarations = [''react''],
     getFunctions = [],
     getVariableStatements =
       [[\<lparr> variableName = ''styles'', variableInitializer = Some OtherExpression \<rparr>]],
     getClasses = [\<lparr> className = Some ''App'', classExported = True, classConstructors = 0 \<rparr>] \<rparr>"


section \<open>The extraction pass (I18nTransformer.extractTexts)\<close>

datatype extractionKind = JsxText | AttributeText | ButtonText | AriaLabel | Placeholder | Title

record TextExtraction =
  extractedText :: string
  extractedKey :: string
  extractionKind :: extractionKind
  extractionFile :: string
  extractionLine :: nat
  extractionColumn :: nat

definition getLineNumber :: "string \<Rightarrow> nat \<Rightarrow> nat" where
  \<comment> \<open>\<^verbatim>\<open>content.substring(0, index).split('\n').length\<close>\<close>
  "getLineNumber content index = length (filter (\<lambda>c. c = CHR 0x0A) (take index content)) + 1"

definition getColumnNumber :: "string \<Rightarrow> nat \<Rightarrow> nat" where
  \<comment> \<open>\<^verbatim>\<open>index - beforeIndex.lastIndexOf('\n')\<close>, the last index being -1 without a line feed\<close>
  "getColumnNumber content index =
     length (takeWhile (\<lambda>c. c \<noteq> CHR 0x0A) (rev (take index content))) + 1"

definition extractMatches ::
  "I18nConfig \<Rightarrow> matcher \<Rightarrow> extractionKind \<Rightarrow> string \<Rightarrow> string \<Rightarrow> registry
   \<Rightarrow> TextExtraction list \<times> registry" where
  \<comment> \<open>the loop over the matches of one pattern: an accepted text is resolved and recorded\<close>
  "extractMatches cfg m kind content filePath reg =
     foldl (\<lambda>(extractions, r) (index, groups).
              case groups of
                [] \<Rightarrow> (extractions, r)
              | g # _ \<Rightarrow>
                 (let t = trim g in
                  if isValidTranslationText cfg t then
                    (let (key, r') = getOrCreateKey cfg r t
                     in (extractions @ [\<lparr> extractedText = t, extractedKey = key,
                                           extractionKind = kind, extractionFile = filePath,
                                           extractionLine = getLineNumber content index,
                                           extractionColumn = getColumnNumber content index \<rparr>],
                         r'))
                  else (extractions, r)))
           ([], reg) (execAll m 0 content)"

definition extractJSXText ::
  "I18nConfig \<Rightarrow> string \<Rightarrow> string \<Rightarrow> registry \<Rightarrow> TextExtraction list \<times> registry" where
  "extractJSXText cfg content filePath reg =
     extractMatches cfg jsxTextPattern JsxText content filePath reg"

definition extractAttributes ::
  "I18nConfig \<Rightarrow> string \<Rightarrow> string \<Rightarrow> registry \<Rightarrow> TextExtraction list \<times> registry" where
  "extractAttributes cfg content filePath reg =
     foldl (\<lambda>(extractions, r) (attr, kind).
              (let (found, r') = extractMatches cfg (attributePattern attr) kind content filePath r
               in (extractions @ found, r')))
           ([], reg)
           [(''placeholder'', Placeholder), (''title'', Title), (''alt'', AttributeText),
            (''aria-label'', AriaLabel)]"

definition extractTexts ::
  "I18nConfig \<Rightarrow> SourceFile \<Rightarrow> registry \<Rightarrow> TextExtraction list \<times> registry" where
  "extractTexts cfg sf reg =
     (let (jsx, r1) = (if extractJSXText_cfg (transformation cfg)
                       then extractJSXText cfg (getFullText sf) (getFilePath sf) reg
                       else ([], reg));
          (attrs, r2) = (if extractAttributes_cfg (transformation cfg)
                         then extractAttributes cfg (getFullText sf) (getFilePath sf) r1
                         else ([], r1))
      in (jsx @ attrs, r2))"

section \<open>The run (I18nTransformer.transform)\<close>

record TransformationStats =
  filesProcessed :: nat
  textsTransformed :: nat
  importsAdded :: nat
  hooksAdded :: nat
  buttonsFixed :: nat
  attributesTransformed :: nat
  codeFragmentsFiltered :: nat
  duplicatesFound :: nat
  errors :: "string list"
  warnings :: "string list"

definition resetStats :: TransformationStats where
  "resetStats = \<lparr> filesProcessed = 0, textsTransformed = 0, importsAdded = 0, hooksAdded = 0,
                  buttonsFixed = 0, attributesTransformed = 0, codeFragmentsFiltered = 0,
                  duplicatesFound = 0, errors = [], warnings = [] \<rparr>"

record TransformationResult =
  success :: bool
  resultStats :: TransformationStats
  resultKeys :: registry
  modifiedFiles :: "string list"
  backupPath :: "string option"

subsection \<open>Files and the libraries\<close>

text \<open>
  The file system is a store from paths to contents. A file holds a text, or the JSON text of
  a value (the members of an object in the order of the text), which \<^verbatim>\<open>readJson\<close> reads back.
\<close>

datatype fileState = TextFile string | JsonFile jsonValue

type_synonym fileSystem = "string \<Rightarrow> fileState option"

datatype hookTarget = InFunction nat | InVariable nat nat

text \<open>
  What the run takes from outside the repository. From ts-morph: loading and parsing a file
  (\<^verbatim>\<open>addSourceFileAtPath\<close>) and the three edits, each giving the source file after the edit
  or throwing (\<open>Inl\<close>, with the message). From the file system: the list \<^verbatim>\<open>findFiles\<close> gets
  from glob (sorted, without duplicates), the error, if any, of writing a path or of creating
  a directory, the error, if any, of the backup copy, and the time stamp of the backup's name.
  From the JavaScript runtime: what \<^verbatim>\<open>JSON.parse\<close> makes of a text (\<^verbatim>\<open>parseJson\<close>), and the
  outcome of the loop that adds the new keys, with the sorting that follows it, on a value that
  is neither a plain object nor \<^verbatim>\<open>null\<close> (\<^verbatim>\<open>addNewKeysToOther\<close>, given the value, the keys
  and \<^verbatim>\<open>sortKeys\<close>): on an array, a string, a number or a boolean, member access and
  assignment depend on the built-in prototypes of the runtime.
\<close>

record environment =
  addSourceFileAtPath :: "fileSystem \<Rightarrow> string \<Rightarrow> string + SourceFile"
  insertImportDeclaration :: "SourceFile \<Rightarrow> nat \<Rightarrow> string \<Rightarrow> string + SourceFile"
  replaceWithText :: "SourceFile \<Rightarrow> string \<Rightarrow> string + SourceFile"
  insertStatements :: "SourceFile \<Rightarrow> hookTarget \<Rightarrow> string \<Rightarrow> string + SourceFile"
  findFiles :: "string list"
  writeError :: "string \<Rightarrow> string option"
  ensureDirError :: "string \<Rightarrow> string option"
  backupError :: "string option"
  timestamp :: string
  parseJson :: "string \<Rightarrow> string + jsonValue"
  addNewKeysToOther :: "jsonValue \<Rightarrow> string list \<Rightarrow> bool \<Rightarrow> string + jsonValue"

record transformerState =
  translationKeys :: registry
  stats :: TransformationStats
  extractedTexts :: "TextExtraction list"
  componentInfo :: "ComponentInfo list"
  fileSystemOf :: fileSystem

definition pathJoin :: "string \<Rightarrow> string \<Rightarrow> string" where
  \<comment> \<open>\<^verbatim>\<open>path.join\<close> of a directory and a name, without the normalisation of the result\<close>
  "pathJoin dir file = dir @ ''/'' @ file"

definition writeFile :: "environment \<Rightarrow> fileSystem \<Rightarrow> string \<Rightarrow> fileState \<Rightarrow> string + fileSystem" where
  "writeFile env fs path content =
     (case writeError env path of Some err \<Rightarrow> Inl err | None \<Rightarrow> Inr (fs(path \<mapsto> content)))"

definition readJsonFile :: "environment \<Rightarrow> fileSystem \<Rightarrow> string \<Rightarrow> fileRead" where
  \<comment> \<open>\<^verbatim>\<open>pathExists\<close> and \<^verbatim>\<open>readJson\<close>\<close>
  "readJsonFile env fs path =
     (case fs path of
        None \<Rightarrow> Missing
      | Some (JsonFile (JObject ms)) \<Rightarrow> Content (JObject (parseMembers ms))
      | Some (JsonFile v) \<Rightarrow> Content v
      | Some (TextFile t) \<Rightarrow>
         (case parseJson env t of Inl err \<Rightarrow> Unreadable err | Inr v \<Rightarrow> Content v))"

definition ownKeys :: "jsonValue \<Rightarrow> string set" where
  \<comment> \<open>the keys of a JSON object; no key for another value\<close>
  "ownKeys v = (case v of JObject ms \<Rightarrow> fst ` set ms | _ \<Rightarrow> {})"

definition keysAt :: "fileSystem \<Rightarrow> string \<Rightarrow> string set" where
  \<comment> \<open>the keys of the catalog that a path holds\<close>
  "keysAt fs path = (case fs path of Some (JsonFile v) \<Rightarrow> ownKeys v | _ \<Rightarrow> {})"

subsection \<open>One file (transformFile)\<close>

definition shouldAddImport :: "I18nConfig \<Rightarrow> SourceFile \<Rightarrow> bool" where
  "shouldAddImport cfg sf = (\<not> importsTranslation cfg sf)"

definition importInsertIndex :: "string list \<Rightarrow> nat" where
  \<comment> \<open>behind the last import whose module specifier contains \<^verbatim>\<open>react\<close> or starts with
      \<^verbatim>\<open>@/\<close> or \<^verbatim>\<open>./\<close>\<close>
  "importInsertIndex specs =
     foldl (\<lambda>insertIndex (i, moduleSpec).
              if str_includes moduleSpec ''react'' \<or> startsWith moduleSpec ''@/''
                 \<or> startsWith moduleSpec ''./''
              then i + 1 else insertIndex)
           0 (zip [0 ..< length specs] specs)"

definition addTranslationImport :: "environment \<Rightarrow> I18nConfig \<Rightarrow> SourceFile \<Rightarrow> string + SourceFile" where
  "addTranslationImport env cfg sf =
     insertImportDeclaration env sf (importInsertIndex (getImportDeclarations sf))
       (nameOr (customHookImport (components cfg)) ''react-i18next'')"

definition shouldAddHook :: "I18nConfig \<Rightarrow> ComponentInfo \<Rightarrow> bool" where
  "shouldAddHook cfg info =
     (if \<not> addUseTranslationHook (components cfg) then False
      else if hasUseTranslation info then False
      else if \<not> needsTranslation info then False
      else if componentType info = ClassComponent \<and> \<not> supportClassComponents (components cfg)
        then False
      else True)"

definition hookStatement :: string where
  "hookStatement = ''const { t } = useTranslation();''"

fun firstIndex :: "('a \<Rightarrow> bool) \<Rightarrow> nat \<Rightarrow> 'a list \<Rightarrow> nat option" where
  "firstIndex p i [] = None"
| "firstIndex p i (x # xs) = (if p x then Some i else firstIndex p (i + 1) xs)"

fun firstBlockArrow :: "nat \<Rightarrow> VariableDeclaration list list \<Rightarrow> (nat \<times> nat) option" where
  "firstBlockArrow i [] = None"
| "firstBlockArrow i (stmt # stmts) =
     (case firstIndex (\<lambda>d. variableInitializer d = Some (ArrowFunction True)) 0 stmt of
        Some j \<Rightarrow> Some (i, j)
      | None \<Rightarrow> firstBlockArrow (i + 1) stmts)"

definition addFunctionComponentHook :: "environment \<Rightarrow> SourceFile \<Rightarrow> string + SourceFile" where
  "addFunctionComponentHook env sf =
     (case firstIndex (\<lambda>f. functionExported f \<and> functionHasBlockBody f) 0 (getFunctions sf) of
        Some i \<Rightarrow> insertStatements env sf (InFunction i) hookStatement
      | None \<Rightarrow>
         (case firstBlockArrow 0 (getVariableStatements sf) of
            Some (i, j) \<Rightarrow> insertStatements env sf (InVariable i j) hookStatement
          | None \<Rightarrow> Inr sf))"

definition addClassComponentSupport :: "SourceFile \<Rightarrow> string + SourceFile" where
  \<comment> \<open>the method only logs\<close>
  "addClassComponentSupport sf = Inr sf"

definition addTranslationHook ::
  "environment \<Rightarrow> SourceFile \<Rightarrow> ComponentInfo \<Rightarrow> string + SourceFile" where
  "addTranslationHook env sf info =
     (if componentType info = ClassComponent then addClassComponentSupport sf
      else addFunctionComponentHook env sf)"

definition save :: "environment \<Rightarrow> fileSystem \<Rightarrow> SourceFile \<Rightarrow> string + fileSystem" where
  \<comment> \<open>\<^verbatim>\<open>sourceFile.save()\<close>\<close>
  "save env fs sf = writeFile env fs (getFilePath sf) (TextFile (getFullText sf))"

text \<open>
  The body of the \<^verbatim>\<open>try\<close> block of \<^verbatim>\<open>transformFile\<close>, one definition for each of its
  steps, each handing the state, the source file and the flag \<^verbatim>\<open>hasChanges\<close> to the next.
  The result is the state the body leaves and the message of the error that ended it, if one
  did: what a step has changed before a later step throws stays changed.
\<close>

definition saveStep ::
  "environment \<Rightarrow> transformerState \<Rightarrow> SourceFile \<Rightarrow> bool \<Rightarrow> transformerState \<times> string option" where
  \<comment> \<open>\<^verbatim>\<open>if (hasChanges) { await sourceFile.save(); }  this.stats.filesProcessed++;\<close>\<close>
  "saveStep env st sf hasChanges =
     (case (if hasChanges then save env (fileSystemOf st) sf else Inr (fileSystemOf st)) of
        Inl err \<Rightarrow> (st, Some err)
      | Inr fs' \<Rightarrow>
          (st\<lparr> fileSystemOf := fs',
               stats := (stats st)\<lparr> filesProcessed := filesProcessed (stats st) + 1 \<rparr> \<rparr>,
           None))"

definition hookStep ::
  "environment \<Rightarrow> I18nConfig \<Rightarrow> transformerState \<Rightarrow> SourceFile \<Rightarrow> ComponentInfo \<Rightarrow> bool
   \<Rightarrow> transformerState \<times> string option" where
  \<comment> \<open>\<^verbatim>\<open>if (this.shouldAddHook(...)) { this.addTranslationHook(...); hasChanges = true; this.stats.hooksAdded++; }\<close>\<close>
  "hookStep env cfg st sf info hasChanges =
     (if shouldAddHook cfg info then
        (case addTranslationHook env sf info of
           Inl err \<Rightarrow> (st, Some err)
         | Inr sf' \<Rightarrow>
             saveStep env (st\<lparr> stats := (stats st)\<lparr> hooksAdded := hooksAdded (stats st) + 1 \<rparr> \<rparr>)
               sf' True)
      else saveStep env st sf hasChanges)"

definition rewriteStep ::
  "environment \<Rightarrow> I18nConfig \<Rightarrow> transformerState \<Rightarrow> SourceFile \<Rightarrow> ComponentInfo \<Rightarrow> bool
   \<Rightarrow> transformerState \<times> string option" where
  \<comment> \<open>\<^verbatim>\<open>transformJSXElements(sourceFile)\<close>, which stores the content when the count is positive,
      and \<^verbatim>\<open>if (transformResults.count > 0) { hasChanges = true; this.stats.textsTransformed += count; }\<close>\<close>
  "rewriteStep env cfg st sf info hasChanges =
     (let (content, reg, count) = transformJSXElements cfg (translationKeys st) (getFullText sf);
          st1 = st\<lparr> translationKeys := reg \<rparr>
      in if count > 0 then
           (case replaceWithText env sf content of
              Inl err \<Rightarrow> (st1, Some err)
            | Inr sf' \<Rightarrow>
                hookStep env cfg
                  (st1\<lparr> stats := (stats st1)\<lparr> textsTransformed := textsTransformed (stats st1) + count \<rparr> \<rparr>)
                  sf' info True)
         else hookStep env cfg st1 sf info hasChanges)"

definition extractStep ::
  "environment \<Rightarrow> I18nConfig \<Rightarrow> transformerState \<Rightarrow> SourceFile \<Rightarrow> ComponentInfo \<Rightarrow> bool
   \<Rightarrow> transformerState \<times> string option" where
  \<comment> \<open>\<^verbatim>\<open>if (extractionResults.length > 0) { this.extractedTexts.push(...extractionResults); hasChanges = true; }\<close>\<close>
  "extractStep env cfg st sf info hasChanges =
     (let (extractionResults, reg) = extractTexts cfg sf (translationKeys st);
          st1 = st\<lparr> translationKeys := reg \<rparr>
      in if length extractionResults > 0 then
           rewriteStep env cfg (st1\<lparr> extractedTexts := extractedTexts st1 @ extractionResults \<rparr>)
             sf info True
         else rewriteStep env cfg st1 sf info hasChanges)"

definition importStep ::
  "environment \<Rightarrow> I18nConfig \<Rightarrow> transformerState \<Rightarrow> SourceFile \<Rightarrow> ComponentInfo
   \<Rightarrow> transformerState \<times> string option" where
  \<comment> \<open>\<^verbatim>\<open>if (this.shouldAddImport(sourceFile)) { this.addTranslationImport(sourceFile); hasChanges = true; this.stats.importsAdded++; }\<close>\<close>
  "importStep env cfg st sf info =
     (if shouldAddImport cfg sf then
        (case addTranslationImport env cfg sf of
           Inl err \<Rightarrow> (st, Some err)
         | Inr sf' \<Rightarrow>
             extractStep env cfg
               (st\<lparr> stats := (stats st)\<lparr> importsAdded := importsAdded (stats st) + 1 \<rparr> \<rparr>)
               sf' info True)
      else extractStep env cfg st sf info False)"

definition transformFileSteps ::
  "environment \<Rightarrow> I18nConfig \<Rightarrow> transformerState \<Rightarrow> string \<Rightarrow> transformerState \<times> string option" where
  "transformFileSteps env cfg st filePath =
     (case addSourceFileAtPath env (fileSystemOf st) filePath of
        Inl err \<Rightarrow> (st, Some err)
      | Inr sf \<Rightarrow>
          (let info = analyzeComponent cfg sf
           in importStep env cfg (st\<lparr> componentInfo := componentInfo st @ [info] \<rparr>) sf info))"

definition pushError :: "string \<Rightarrow> transformerState \<Rightarrow> transformerState" where
  "pushError msg st = st\<lparr> stats := (stats st)\<lparr> errors := errors (stats st) @ [msg] \<rparr> \<rparr>"

definition pushWarning :: "string \<Rightarrow> transformerState \<Rightarrow> transformerState" where
  "pushWarning msg st = st\<lparr> stats := (stats st)\<lparr> warnings := warnings (stats st) @ [msg] \<rparr> \<rparr>"

definition transformFile ::
  "environment \<Rightarrow> I18nConfig \<Rightarrow> transformerState \<Rightarrow> string \<Rightarrow> transformerState" where
  "transformFile env cfg st filePath =
     (case transformFileSteps env cfg st filePath of
        (st', None) \<Rightarrow> st'
      | (st', Some err) \<Rightarrow> pushError (''Error transforming '' @ filePath @ '': '' @ err) st')"

subsection \<open>The whole run\<close>

definition sourceCatalogPath :: "I18nConfig \<Rightarrow> string" where
  "sourceCatalogPath cfg = pathJoin (outputDir cfg) (sourceLanguage cfg @ ''.json'')"

definition loadExistingTranslationsFile ::
  "environment \<Rightarrow> I18nConfig \<Rightarrow> transformerState \<Rightarrow> transformerState" where
  \<comment> \<open>the method \<^verbatim>\<open>loadExistingTranslations\<close>: the seeding when the file exists and is read, a
      warning when it exists and \<^verbatim>\<open>readJson\<close> or \<^verbatim>\<open>Object.entries\<close> throws\<close>
  "loadExistingTranslationsFile env cfg st =
     (case readJsonFile env (fileSystemOf st) (sourceCatalogPath cfg) of
        Missing \<Rightarrow> st
      | Unreadable err \<Rightarrow> pushWarning (''Could not load existing translations: '' @ err) st
      | Content translations \<Rightarrow>
         (case objectEntries translations of
            Inl err \<Rightarrow> pushWarning (''Could not load existing translations: '' @ err) st
          | Inr entries \<Rightarrow>
              st\<lparr> translationKeys := loadExistingTranslations cfg entries (translationKeys st) \<rparr>))"

definition createBackup :: "environment \<Rightarrow> I18nConfig \<Rightarrow> string + string" where
  \<comment> \<open>the path of the backup, or the error of \<^verbatim>\<open>path.join\<close>, \<^verbatim>\<open>ensureDir\<close> or \<^verbatim>\<open>copy\<close>. The
      copies lie in the backup directory, which is not part of the store of the model.\<close>
  "createBackup env cfg =
     (case backupDir cfg of
        None \<Rightarrow> Inl ''The path argument must be of type string. Received undefined''
      | Some dir \<Rightarrow>
         (case backupError env of
            Some err \<Rightarrow> Inl err
          | None \<Rightarrow> Inr (pathJoin dir (''backup-'' @ timestamp env))))"

definition sortedTarget ::
  "environment \<Rightarrow> I18nConfig \<Rightarrow> catalog \<Rightarrow> jsonValue \<Rightarrow> string + jsonValue" where
  \<comment> \<open>the loop that adds the new keys and the sorting, on the value of \<^verbatim>\<open>targetTranslations\<close>:
      the value to write, or the message of the \<^verbatim>\<open>TypeError\<close>. On \<^verbatim>\<open>null\<close> the first
      \<^verbatim>\<open>targetTranslations[key]\<close> throws, and without a key \<^verbatim>\<open>Object.keys\<close> of
      \<^verbatim>\<open>sortObjectKeys\<close> does.\<close>
  \<open>sortedTarget env cfg sortedTranslations targetTranslations =
     (case targetTranslations of
        JObject ms \<Rightarrow> Inr (JObject (targetObject cfg sortedTranslations ms))
      | JNull \<Rightarrow>
         (case sortedTranslations of
            (key, _) # _ \<Rightarrow>
              Inl (''Cannot read properties of null (reading '' @ [CHR 0x27] @ key @ [CHR 0x27] @ '')'')
          | [] \<Rightarrow> if sortKeys (format cfg) then Inl ''Cannot convert undefined or null to object''
                  else Inr JNull)
      | other \<Rightarrow> addNewKeysToOther env other (map fst sortedTranslations) (sortKeys (format cfg)))\<close>

fun writeTargetFiles ::
  "environment \<Rightarrow> I18nConfig \<Rightarrow> catalog \<Rightarrow> transformerState \<Rightarrow> string list
   \<Rightarrow> transformerState \<times> string option" where
  \<comment> \<open>the loop over the target languages\<close>
  "writeTargetFiles env cfg sortedTranslations st [] = (st, None)"
| "writeTargetFiles env cfg sortedTranslations st (lang # langs) =
     (let targetFile = pathJoin (outputDir cfg) (lang @ ''.json'');
          existing = readJsonFile env (fileSystemOf st) targetFile;
          st1 = (case existing of
                   Unreadable _ \<Rightarrow> pushWarning (''Could not load existing '' @ lang @ '' translations'') st
                 | _ \<Rightarrow> st)
      in case sortedTarget env cfg sortedTranslations (existingOrEmpty existing) of
           Inl err \<Rightarrow> (st1, Some err)
         | Inr target \<Rightarrow>
            (case writeFile env (fileSystemOf st1) targetFile (JsonFile target) of
               Inl err \<Rightarrow> (st1, Some err)
             | Inr fs' \<Rightarrow>
                 writeTargetFiles env cfg sortedTranslations (st1\<lparr> fileSystemOf := fs' \<rparr>) langs))"

definition generateTranslationFiles ::
  "environment \<Rightarrow> I18nConfig \<Rightarrow> transformerState \<Rightarrow> transformerState \<times> string option" where
  \<comment> \<open>the state the method leaves, and the message of the error that ended it, if one did\<close>
  "generateTranslationFiles env cfg st =
     (case ensureDirError env (outputDir cfg) of
        Some err \<Rightarrow> (st, Some err)
      | None \<Rightarrow>
         (let sortedTranslations = generateSourceCatalog cfg (translationKeys st)
          in case writeFile env (fileSystemOf st) (sourceCatalogPath cfg)
                    (JsonFile (asJson sortedTranslations)) of
               Inl err \<Rightarrow> (st, Some err)
             | Inr fs1 \<Rightarrow>
                 writeTargetFiles env cfg sortedTranslations (st\<lparr> fileSystemOf := fs1 \<rparr>)
                   (targetLanguages cfg)))"

definition typeDefinitionText :: "string list \<Rightarrow> string" where
  \<open>typeDefinitionText keys =
     ''// Auto-generated i18n type definitions'' @ [CHR 0x0A] @
     ''export interface I18nKeys {'' @ [CHR 0x0A] @
     join [CHR 0x0A] (map (\<lambda>key. ''  '' @ [CHR 0x27] @ key @ [CHR 0x27] @ '': string;'') keys)
       @ [CHR 0x0A] @
     ''}'' @ [CHR 0x0A, CHR 0x0A] @
     ''export type TranslationKey = keyof I18nKeys;'' @ [CHR 0x0A]\<close>

definition generateTypeDefinitions ::
  "environment \<Rightarrow> I18nConfig \<Rightarrow> transformerState \<Rightarrow> transformerState \<times> string option" where
  "generateTypeDefinitions env cfg st =
     (case writeFile env (fileSystemOf st) (pathJoin (outputDir cfg) ''types.ts'')
             (TextFile (typeDefinitionText (map snd (translationKeys st)))) of
        Inl err \<Rightarrow> (st, Some err)
      | Inr fs' \<Rightarrow> (st\<lparr> fileSystemOf := fs' \<rparr>, None))"

definition initialState :: "fileSystem \<Rightarrow> transformerState" where
  \<comment> \<open>a new transformer over the file system\<close>
  "initialState fs = \<lparr> translationKeys = [], stats = resetStats, extractedTexts = [],
                       componentInfo = [], fileSystemOf = fs \<rparr>"

definition transformFiles ::
  "environment \<Rightarrow> I18nConfig \<Rightarrow> transformerState \<Rightarrow> string list \<Rightarrow> transformerState" where
  \<comment> \<open>\<^verbatim>\<open>for (const filePath of files) { await this.transformFile(filePath); }\<close>\<close>
  "transformFiles env cfg st files = foldl (transformFile env cfg) st files"

definition failedRun :: "string \<Rightarrow> transformerState \<Rightarrow> TransformationResult \<times> fileSystem" where
  \<comment> \<open>the \<^verbatim>\<open>catch\<close> block of \<^verbatim>\<open>transform\<close>\<close>
  "failedRun err st =
     (\<lparr> success = False,
        resultStats = stats (pushError (''Transformation failed: '' @ err) st),
        resultKeys = translationKeys st,
        modifiedFiles = [],
        backupPath = None \<rparr>,
      fileSystemOf st)"

definition transform :: "environment \<Rightarrow> I18nConfig \<Rightarrow> fileSystem \<Rightarrow> TransformationResult \<times> fileSystem" where
  \<comment> \<open>the result record of a run of a new transformer, and the file system it leaves\<close>
  "transform env cfg fs =
     (let st0 = loadExistingTranslationsFile env cfg (initialState fs)
      in case (if createBackup_cfg (advanced cfg) then map_sum id Some (createBackup env cfg)
               else Inr None) of
           Inl err \<Rightarrow> failedRun err st0
         | Inr backup \<Rightarrow>
            (let files = findFiles env;
                 st1 = transformFiles env cfg st0 files
             in case generateTranslationFiles env cfg st1 of
                  (st2, Some err) \<Rightarrow> failedRun err st2
                | (st2, None) \<Rightarrow>
                   (case (if generateTypeDefinitions_cfg (advanced cfg)
                          then generateTypeDefinitions env cfg st2 else (st2, None)) of
                      (st3, Some err) \<Rightarrow> failedRun err st3
                    | (st3, None) \<Rightarrow>
                        (\<lparr> success = True, resultStats = stats st3,
                           resultKeys = translationKeys st3, modifiedFiles = files,
                           backupPath = backup \<rparr>,
                         fileSystemOf st3))))"

subsection \<open>What a step may change\<close>

definition changeCount :: "transformerState \<Rightarrow> nat" where
  \<comment> \<open>the imports and hooks added, the texts transformed and the texts extracted so far\<close>
  "changeCount st = importsAdded (stats st) + hooksAdded (stats st) + textsTransformed (stats st)
                     + length (extractedTexts st)"

definition stepsFrom :: "transformerState \<Rightarrow> bool \<Rightarrow> transformerState \<times> string option \<Rightarrow> bool" where
  \<comment> \<open>what holds of the result \<open>r\<close> of the steps that start in the state \<open>st\<close> with the flag
      \<^verbatim>\<open>hasChanges\<close>: they leave the errors and warnings alone, count the file as processed
      exactly when no error ends them, never lower the change count, and write a file only
      when the flag is set or they raise the change count\<close>
  "stepsFrom st hasChanges r =
     (errors (stats (fst r)) = errors (stats st) \<and>
      warnings (stats (fst r)) = warnings (stats st) \<and>
      filesProcessed (stats (fst r)) = filesProcessed (stats st) + (if snd r = None then 1 else 0) \<and>
      changeCount st \<le> changeCount (fst r) \<and>
      (fileSystemOf (fst r) \<noteq> fileSystemOf st \<longrightarrow> hasChanges \<or> changeCount st < changeCount (fst r)))"

subsection \<open>An example project\<close>

text \<open>
  A project of two files. \<open>src/About.tsx\<close> is a component with one heading that is not yet
  translated; the file is read-only, so saving it fails. \<open>src/App.tsx\<close> is a component that
  already carries its import, its hook and its translation call. The environment parses both
  as ts-morph does (one import declaration, one exported function named as the file) and
  replaces the text of a source file; the two insertions are not needed for these files, no
  text of the project is read as JSON, and no catalog holds anything but an object.
\<close>

definition aboutText :: string where
  \<open>aboutText =
     ''import { useTranslation } from \'react-i18next\';'' @ [CHR 0x0A] @
     ''export function About() {'' @ [CHR 0x0A] @
     ''  const { t } = useTranslation();'' @ [CHR 0x0A] @
     ''  return <h1>Hello World</h1>;'' @ [CHR 0x0A] @
     ''}'' @ [CHR 0x0A]\<close>

definition appText :: string where
  \<open>appText =
     ''import { useTranslation } from \'react-i18next\';'' @ [CHR 0x0A] @
     ''export function App() {'' @ [CHR 0x0A] @
     ''  const { t } = useTranslation();'' @ [CHR 0x0A] @
     ''  return <h1>{t(\'Welcome\')}</h1>;'' @ [CHR 0x0A] @
     ''}'' @ [CHR 0x0A]\<close>

definition exampleFiles :: fileSystem where
  "exampleFiles = Map.empty(''src/About.tsx'' \<mapsto> TextFile aboutText,
                            ''src/App.tsx'' \<mapsto> TextFile appText)"

definition permissionDenied :: "string \<Rightarrow> string" where
  \<open>permissionDenied path = ''EACCES: permission denied, open '' @ [CHR 0x27] @ path @ [CHR 0x27]\<close>

definition exampleEnvironment :: environment where
  "exampleEnvironment = \<lparr>
     addSourceFileAtPath = (\<lambda>fs path.
        case fs path of
          Some (TextFile t) \<Rightarrow>
            Inr \<lparr> getFilePath = path, getFullText = t,
                  getImportDeclarations = [''react-i18next''],
                  getFunctions = [\<lparr> functionName = Some (fileNameOf path),
                                    functionExported = True, functionHasBlockBody = True \<rparr>],
                  getVariableStatements = [], getClasses = [] \<rparr>
        | _ \<Rightarrow> Inl (''File not found: '' @ path)),
     insertImportDeclaration = (\<lambda>sf i spec. Inl ''not supported''),
     replaceWithText = (\<lambda>sf content. Inr (sf\<lparr> getFullText := content \<rparr>)),
     insertStatements = (\<lambda>sf target statement. Inl ''not supported''),
     findFiles = [''src/About.tsx'', ''src/App.tsx''],
     writeError = (\<lambda>path. if path = ''src/About.tsx'' then Some (permissionDenied path)
                           else None),
     ensureDirError = (\<lambda>path. None),
     backupError = None,
     timestamp = ''2024-01-01T00-00-00-000Z'',
     parseJson = (\<lambda>t. Inl ''Unexpected token in JSON''),
     addNewKeysToOther = (\<lambda>v keys sorted. Inl ''not supported'') \<rparr>"

definition backupFailing :: environment where
  \<comment> \<open>the example environment, with a backup copy that fails\<close>
  "backupFailing = exampleEnvironment\<lparr> backupError := Some ''ENOSPC: no space left on device'' \<rparr>"

definition catalogFailing :: environment where
  \<comment> \<open>the example environment, with an output directory that cannot be created\<close>
  "catalogFailing =
     exampleEnvironment\<lparr> ensureDirError := (\<lambda>path. Some (''EACCES: permission denied, mkdir '' @ path)) \<rparr>"

subsection \<open>An example project with catalogs\<close>

text \<open>
  A project of one file, \<open>src/Page.tsx\<close>, with two texts that are not yet translated, the
  second being the word \<open>constructor\<close>, and a Spanish catalog that translates the first
  text and holds a key \<open>Old\<close> of an earlier version of the project.
\<close>

definition pageText :: string where
  \<open>pageText =
     ''import { useTranslation } from \'react-i18next\';'' @ [CHR 0x0A] @
     ''export function Page() {'' @ [CHR 0x0A] @
     ''  const { t } = useTranslation();'' @ [CHR 0x0A] @
     ''  return <div><h1>Welcome</h1><p>constructor</p></div>;'' @ [CHR 0x0A] @
     ''}'' @ [CHR 0x0A]\<close>

definition catalogFiles :: fileSystem where
  "catalogFiles = Map.empty(
     ''src/Page.tsx'' \<mapsto> TextFile pageText,
     ''./src/locales/es.json'' \<mapsto>
        JsonFile (JObject [(''Welcome'', JString ''Bienvenido''), (''Old'', JString ''Viejo'')]))"

definition catalogEnvironment :: environment where
  "catalogEnvironment =
     exampleEnvironment\<lparr> findFiles := [''src/Page.tsx''], writeError := (\<lambda>path. None) \<rparr>"

definition pageRun :: transformerState where
  \<comment> \<open>the state of the run on the example project when the catalog writer starts\<close>
  "pageRun =
     transformFiles catalogEnvironment getDefaultConfig
       (loadExistingTranslationsFile catalogEnvironment getDefaultConfig (initialState catalogFiles))
       (findFiles catalogEnvironment)"

section \<open>Properties of the classifier\<close>

lemma classify_true: "skipReason getDefaultConfig ''true'' = Some ''technical-term''"
  by code_simp

lemma classify_123: "skipReason getDefaultConfig ''123'' = Some ''number''"
  by code_simp

lemma classify_path: "skipReason getDefaultConfig ''./src/x'' = Some ''path''"
  by code_simp

lemma classify_div: "skipReason getDefaultConfig ''<div>'' = Some ''rule-jsx-expression''"
  by code_simp

lemma classify_save_changes: "skipReason getDefaultConfig ''Save Changes'' = None"
  by code_simp

lemma classify_100px: "skipReason getDefaultConfig ''100px'' = None"
  by code_simp

lemma css_units_rule_100px:
  "cssUnitsPattern ''100px'' \<and>
   map severity (filter (\<lambda>r. name r = ''css-units'') getDefaultValidationRules) = [Warning]"
  by code_simp

text \<open>
  C1. Under the default configuration the classifier rejects \<open>true\<close>, \<open>123\<close>, \<open>./src/x\<close> and
  \<open><div>\<close> and accepts \<open>Save Changes\<close>; it accepts \<open>100px\<close> as well. The text matches the
  rule \<open>css-units\<close>, but that rule has severity warning and the classifier applies the rules
  of severity error only; the test suite of the validator expects \<open>100px\<close> to be rejected.
\<close>

theorem classifier_examples:
  "\<not> isValidTranslationText getDefaultConfig ''true'' \<and>
   \<not> isValidTranslationText getDefaultConfig ''123'' \<and>
   \<not> isValidTranslationText getDefaultConfig ''./src/x'' \<and>
   \<not> isValidTranslationText getDefaultConfig ''<div>'' \<and>
   isValidTranslationText getDefaultConfig ''Save Changes'' \<and>
   isValidTranslationText getDefaultConfig ''100px'' \<and>
   cssUnitsPattern ''100px''"
  using css_units_rule_100px
  by (simp add: isValidTranslationText_def classify_true classify_123 classify_path classify_div
        classify_save_changes classify_100px)

section \<open>Trimming\<close>

lemma dropWhile_rev_prefix:
  assumes "xs = [] \<or> \<not> P (hd xs)"
  shows "dropWhile P (rev (dropWhile P (rev xs))) = rev (dropWhile P (rev xs))"
proof (cases "rev (dropWhile P (rev xs))")
  case Nil
  show ?thesis unfolding Nil by simp
next
  case (Cons b bs)
  have "xs = rev (dropWhile P (rev xs)) @ rev (takeWhile P (rev xs))"
    by (metis rev_append rev_rev_ident takeWhile_dropWhile_id)
  then have "hd xs = b" "xs \<noteq> []"
    using Cons by (metis hd_append2 list.sel(1) list.simps(3), metis Nil_is_append_conv list.simps(3))
  then have "\<not> P b" using assms by auto
  then show ?thesis using Cons by simp
qed

lemma trim_idem: "trim (trim s) = trim s"
proof -
  let ?a = "dropWhile isSpace s"
  have h: "?a = [] \<or> \<not> isSpace (hd ?a)"
    using hd_dropWhile [of isSpace s] by blast
  have "dropWhile isSpace (trim s) = trim s"
    unfolding trim_def using h by (rule dropWhile_rev_prefix [of "dropWhile isSpace s" isSpace])
  then show ?thesis
    by (simp add: trim_def)
qed

section \<open>Properties of the key derivation\<close>


















section \<open>Properties of the key registry\<close>

lemma set_update_subset: "set (AList.update k v al) \<subseteq> insert (k, v) (set al)"
  by (induction al) auto

subsection \<open>The registry\<close>











subsection \<open>Plain objects\<close>

lemma map_of_insertMember:
  "map_of ms k = None \<Longrightarrow>
   map_of (insertMember k v ms) k' = (if k' = k then Some v else map_of ms k')"
  by (induction ms) (auto split: if_splits)




lemma map_of_defineMember: "map_of (defineMember k v ms) = (map_of ms)(k \<mapsto> v)"
  by (rule ext) (simp add: defineMember_def update_conv' map_of_insertMember split: option.splits)


lemma map_of_setMember:
  "map_of (setMember k v ms) k' =
     (if k' = k \<and> (k \<noteq> ''__proto__'' \<or> map_of ms k \<noteq> None) then Some v else map_of ms k')"
  by (simp add: setMember_def update_conv' map_of_insertMember split: option.splits)


lemma keys_dom: "fst ` set ms = dom (map_of ms)"
  by (simp add: dom_map_of_conv_image_fst)

lemma parseMembers_snoc:
  "parseMembers (ms @ [(k, v)]) = defineMember k v (parseMembers ms)"
  by (simp add: parseMembers_def)

lemma map_of_parseMembers: "map_of (parseMembers ms) = map_of (rev ms)"
proof (induction ms rule: rev_induct)
  case Nil
  then show ?case by (simp add: parseMembers_def)
next
  case (snoc m ms)
  obtain k v where m: "m = (k, v)" by (cases m)
  show ?case unfolding m parseMembers_snoc map_of_defineMember snoc by simp
qed


lemma keys_parseMembers: "fst ` set (parseMembers ms) = fst ` set ms"
  by (simp only: keys_dom map_of_parseMembers) (simp add: dom_map_of_conv_image_fst)



lemma sortObjectKeys_step:
  "map_of (case map_of obj key of Some v \<Rightarrow> setMember key v acc | None \<Rightarrow> acc) k
   = (if k = key \<and> map_of obj k \<noteq> None \<and> (k \<noteq> ''__proto__'' \<or> map_of acc k \<noteq> None)
      then map_of obj k else map_of acc k)"
  by (cases "map_of obj key") (auto simp: map_of_setMember)

lemma sortObjectKeys_fold:
  "map_of (foldl (\<lambda>sorted key. case map_of obj key of
                                   Some v \<Rightarrow> setMember key v sorted | None \<Rightarrow> sorted) acc ks) k
   = (if k \<in> set ks \<and> map_of obj k \<noteq> None \<and> (k \<noteq> ''__proto__'' \<or> map_of acc k \<noteq> None)
      then map_of obj k else map_of acc k)"
proof (induction ks arbitrary: acc)
  case Nil
  then show ?case by simp
next
  case (Cons key ks)
  show ?case
    unfolding foldl_Cons Cons.IH sortObjectKeys_step by auto
qed

lemma map_of_sortObjectKeys:
  "map_of (sortObjectKeys obj) k = (if k = ''__proto__'' then None else map_of obj k)"
proof (cases "map_of obj k")
  case None
  then show ?thesis by (simp add: sortObjectKeys_def sortObjectKeys_fold)
next
  case (Some v)
  then have "k \<in> set (map fst obj)"
    by (metis map_of_eq_None_iff option.distinct(1) set_map)
  then show ?thesis using Some by (simp add: sortObjectKeys_def sortObjectKeys_fold)
qed



subsection \<open>The source-language catalog\<close>









subsection \<open>Seeding\<close>


subsection \<open>Two runs\<close>
















subsection \<open>Distinct texts and their keys\<close>

lemma hash_collision:
  "resolveAll (withStrategy HashStrategy) [] [''Aa'', ''BB'']
     = [(''Aa'', ''text_1mo''), (''BB'', ''text_1mo'')]"
  by code_simp

lemma path_collision:
  "resolveAll (withStrategy PathStrategy) [] [''Hello World'', ''Hello World!'']
     = [(''Hello World'', ''hello_world''), (''Hello World!'', ''hello_world'')]"
  by code_simp

lemma custom_collision:
  "resolveAll (withStrategy CustomStrategy) [] [''Hello World'', ''Hello, World'']
     = [(''Hello World'', ''hello_world''), (''Hello, World'', ''hello_world'')]"
  by code_simp

lemma collision_texts_valid:
  "isValidTranslationText getDefaultConfig ''Aa'' \<and> isValidTranslationText getDefaultConfig ''BB''"
  by code_simp

lemma identityKeys_iff: "identityKeys reg \<longleftrightarrow> (\<forall>(c, k) \<in> set reg. k = c)"
  by (simp add: identityKeys_def list_all_iff)

lemma getOrCreateKey_identity:
  assumes "keyStrategyOf (format cfg) = TextStrategy" and "identityKeys reg"
  shows "identityKeys (snd (getOrCreateKey cfg reg t))"
proof (cases "map_of reg (trim t)")
  case None
  have "set (AList.update (trim t) (trim t) reg) \<subseteq> insert (trim t, trim t) (set reg)"
    by (rule set_update_subset)
  then have "identityKeys (AList.update (trim t) (trim t) reg)"
    using assms(2) by (auto simp: identityKeys_iff)
  then show ?thesis
    using None assms(1) by (simp add: getOrCreateKey_def Let_def suggestKeyName_def trim_idem)
next
  case (Some k)
  then show ?thesis using assms(2) by (simp add: getOrCreateKey_def Let_def)
qed

lemma resolveAll_identity:
  "keyStrategyOf (format cfg) = TextStrategy \<Longrightarrow> identityKeys reg
   \<Longrightarrow> identityKeys (resolveAll cfg reg ts)"
  by (induction ts arbitrary: reg) (simp_all add: getOrCreateKey_identity)


text \<open>
  C4 as stated (distinct texts never share a key, under every strategy) fails: under the hash
  strategy the accepted texts \<open>Aa\<close> and \<open>BB\<close> both get \<open>text_1mo\<close>; under the path strategy
  \<open>Hello World\<close> and \<open>Hello World!\<close> both get \<open>hello_world\<close>; under the custom strategy
  \<open>Hello World\<close> and \<open>Hello, World\<close> both get \<open>hello_world\<close>.
\<close>

theorem registry_injectivity_counterexample:
  "isValidTranslationText getDefaultConfig ''Aa'' \<and>
   isValidTranslationText getDefaultConfig ''BB'' \<and>
   ''Aa'' \<noteq> ''BB'' \<and>
   resolveAll (withStrategy HashStrategy) [] [''Aa'', ''BB'']
     = [(''Aa'', ''text_1mo''), (''BB'', ''text_1mo'')] \<and>
   resolveAll (withStrategy PathStrategy) [] [''Hello World'', ''Hello World!'']
     = [(''Hello World'', ''hello_world''), (''Hello World!'', ''hello_world'')] \<and>
   resolveAll (withStrategy CustomStrategy) [] [''Hello World'', ''Hello, World'']
     = [(''Hello World'', ''hello_world''), (''Hello, World'', ''hello_world'')]"
  using collision_texts_valid hash_collision path_collision custom_collision by simp

lemma text_run_example:
  "resolveAll getDefaultConfig [] [''Save Changes'', ''  Welcome '', ''Save Changes'']
     = [(''Save Changes'', ''Save Changes''), (''Welcome'', ''Welcome'')]"
  by code_simp

text \<open>
  C4, amended. Under the text strategy, in a run whose registry starts empty, or starts with
  entries whose keys are their texts, two distinct registered texts have distinct keys (every
  key is its text).
\<close>

theorem text_strategy_keys_distinct:
  assumes "keyStrategyOf (format cfg) = TextStrategy"
    and "identityKeys reg"
    and "map_of (resolveAll cfg reg ts) t1 = Some k1"
    and "map_of (resolveAll cfg reg ts) t2 = Some k2"
    and "t1 \<noteq> t2"
  shows "k1 \<noteq> k2"
proof -
  have "identityKeys (resolveAll cfg reg ts)"
    by (rule resolveAll_identity [OF assms(1,2)])
  moreover have "(t1, k1) \<in> set (resolveAll cfg reg ts)" "(t2, k2) \<in> set (resolveAll cfg reg ts)"
    using assms(3,4) by (auto dest: map_of_SomeD)
  ultimately have "k1 = t1" "k2 = t2"
    by (auto simp: identityKeys_iff)
  then show ?thesis using assms(5) by simp
qed

theorem text_strategy_keys_distinct_witness:
  "keyStrategyOf (format getDefaultConfig) = TextStrategy \<and>
   identityKeys [] \<and>
   map_of (resolveAll getDefaultConfig [] [''Save Changes'', ''  Welcome '', ''Save Changes''])
      ''Save Changes'' = Some ''Save Changes'' \<and>
   map_of (resolveAll getDefaultConfig [] [''Save Changes'', ''  Welcome '', ''Save Changes''])
      ''Welcome'' = Some ''Welcome'' \<and>
   ''Save Changes'' \<noteq> ''Welcome''"
proof -
  have a: "keyStrategyOf (format getDefaultConfig) = TextStrategy"
    by (simp add: getDefaultConfig_def)
  have i: "identityKeys []" by (simp add: identityKeys_def)
  have b: "map_of (resolveAll getDefaultConfig [] [''Save Changes'', ''  Welcome '', ''Save Changes''])
      ''Save Changes'' = Some ''Save Changes''"
    unfolding text_run_example by simp
  have c: "map_of (resolveAll getDefaultConfig [] [''Save Changes'', ''  Welcome '', ''Save Changes''])
      ''Welcome'' = Some ''Welcome''"
    unfolding text_run_example by simp
  have d: "''Save Changes'' \<noteq> ''Welcome''" by simp
  from text_strategy_keys_distinct [OF a i b c d] a i b c show ?thesis by simp
qed

section \<open>Properties of the catalog writer\<close>

subsection \<open>The keys of a target catalog\<close>

lemma setMember_keeps: "map_of ms k \<noteq> None \<Longrightarrow> map_of (setMember k' v ms) k \<noteq> None"
  by (simp add: map_of_setMember)

lemma addKeyIfMissing_keeps:
  "map_of ms k \<noteq> None \<Longrightarrow> map_of (addKeyIfMissing ms key) k \<noteq> None"
  by (auto simp: addKeyIfMissing_def map_of_setMember split: member.splits)

lemma addNewKeys_fold_keeps:
  "map_of ms k \<noteq> None \<Longrightarrow> map_of (foldl addKeyIfMissing ms ks) k \<noteq> None"
proof (induction ks arbitrary: ms)
  case Nil
  then show ?case by simp
next
  case (Cons a ks)
  have "map_of (addKeyIfMissing ms a) k \<noteq> None"
    using Cons.prems by (rule addKeyIfMissing_keeps)
  then show ?case
    unfolding foldl_Cons by (rule Cons.IH)
qed

lemma addNewKeys_keeps: "map_of ms k \<noteq> None \<Longrightarrow> map_of (addNewKeys src ms) k \<noteq> None"
  unfolding addNewKeys_def by (rule addNewKeys_fold_keeps)

lemma targetObject_keeps:
  "map_of ms k \<noteq> None \<Longrightarrow> k \<noteq> ''__proto__'' \<Longrightarrow> map_of (targetObject cfg src ms) k \<noteq> None"
  using addNewKeys_keeps [of ms k src]
  by (auto simp: targetObject_def Let_def map_of_sortObjectKeys)

lemma in_keys: "k \<in> fst ` set ms \<longleftrightarrow> map_of ms k \<noteq> None"
  by (simp add: map_of_eq_None_iff)

lemma writeTargetFiles_keeps:
  "k \<in> keysAt (fileSystemOf st) p \<Longrightarrow> k \<noteq> ''__proto__'' \<Longrightarrow>
   k \<in> keysAt (fileSystemOf (fst (writeTargetFiles env cfg src st langs))) p"
proof (induction langs arbitrary: st)
  case Nil
  then show ?case by simp
next
  case (Cons lang langs)
  let ?t = "pathJoin (outputDir cfg) (lang @ ''.json'')"
  let ?existing = "readJsonFile env (fileSystemOf st) ?t"
  let ?st1 = "case ?existing of
                Unreadable _ \<Rightarrow> pushWarning (''Could not load existing '' @ lang @ '' translations'') st
              | _ \<Rightarrow> st"
  have fs1: "fileSystemOf ?st1 = fileSystemOf st"
    by (cases ?existing) (simp_all add: pushWarning_def)
  show ?case
  proof (cases "sortedTarget env cfg src (existingOrEmpty ?existing)")
    case (Inl err)
    then show ?thesis using Cons.prems fs1 by (simp add: Let_def)
  next
    case (Inr target)
    show ?thesis
    proof (cases "writeFile env (fileSystemOf ?st1) ?t (JsonFile target)")
      case (Inl err)
      then show ?thesis using Cons.prems fs1 Inr by (simp add: Let_def)
    next
      case written: (Inr fs')
      have fs': "fs' = (fileSystemOf st)(?t \<mapsto> JsonFile target)"
        using written fs1 by (simp add: writeFile_def split: option.splits)
      have "k \<in> keysAt fs' p"
      proof (cases "p = ?t")
        case False
        then show ?thesis using Cons.prems(1) fs' by (simp add: keysAt_def)
      next
        case True
        obtain ms where ms: "fileSystemOf st ?t = Some (JsonFile (JObject ms))" "k \<in> fst ` set ms"
          using Cons.prems(1) unfolding True keysAt_def ownKeys_def
          by (auto split: option.splits fileState.splits jsonValue.splits)
        have "?existing = Content (JObject (parseMembers ms))"
          using ms(1) by (simp add: readJsonFile_def)
        then have "target = JObject (targetObject cfg src (parseMembers ms))"
          using Inr by (simp add: existingOrEmpty_def sortedTarget_def)
        moreover have "k \<in> fst ` set (parseMembers ms)"
          using ms(2) by (simp only: keys_parseMembers)
        then have "map_of (parseMembers ms) k \<noteq> None"
          unfolding in_keys .
        then have "map_of (targetObject cfg src (parseMembers ms)) k \<noteq> None"
          using Cons.prems(2) by (rule targetObject_keeps)
        ultimately show ?thesis
          unfolding True fs' by (simp add: keysAt_def ownKeys_def in_keys)
      qed
      then have "k \<in> keysAt (fileSystemOf (?st1\<lparr> fileSystemOf := fs' \<rparr>)) p" by simp
      then have "k \<in> keysAt (fileSystemOf (fst (writeTargetFiles env cfg src
                      (?st1\<lparr> fileSystemOf := fs' \<rparr>) langs))) p"
        using Cons.prems(2) by (rule Cons.IH)
      then show ?thesis using Inr written by (simp add: Let_def)
    qed
  qed
qed

lemma pathJoin_json_inject:
  "pathJoin dir (a @ ''.json'') = pathJoin dir (b @ ''.json'') \<Longrightarrow> a = b"
  by (simp add: pathJoin_def)

lemma generateTranslationFiles_keeps:
  assumes "k \<in> keysAt (fileSystemOf st) (pathJoin (outputDir cfg) (lang @ ''.json''))"
    and "k \<noteq> ''__proto__''" and "lang \<noteq> sourceLanguage cfg"
  shows "k \<in> keysAt (fileSystemOf (fst (generateTranslationFiles env cfg st)))
                 (pathJoin (outputDir cfg) (lang @ ''.json''))"
proof (cases "ensureDirError env (outputDir cfg)")
  case (Some err)
  then show ?thesis using assms(1) by (simp add: generateTranslationFiles_def)
next
  case None
  let ?p = "pathJoin (outputDir cfg) (lang @ ''.json'')"
  show ?thesis
  proof (cases "writeFile env (fileSystemOf st) (sourceCatalogPath cfg)
                  (JsonFile (asJson (generateSourceCatalog cfg (translationKeys st))))")
    case (Inl err)
    then show ?thesis using None assms(1) by (simp add: generateTranslationFiles_def Let_def)
  next
    case (Inr fs1)
    have "sourceCatalogPath cfg \<noteq> ?p"
      using assms(3) pathJoin_json_inject [of "outputDir cfg" lang "sourceLanguage cfg"]
      by (auto simp: sourceCatalogPath_def)
    then have "keysAt fs1 ?p = keysAt (fileSystemOf st) ?p"
      using Inr by (auto simp: writeFile_def keysAt_def split: option.splits)
    then have "k \<in> keysAt (fileSystemOf (st\<lparr> fileSystemOf := fs1 \<rparr>)) ?p"
      using assms(1) by simp
    then have "k \<in> keysAt (fileSystemOf (fst (writeTargetFiles env cfg
                  (generateSourceCatalog cfg (translationKeys st))
                  (st\<lparr> fileSystemOf := fs1 \<rparr>) (targetLanguages cfg)))) ?p"
      using assms(2) by (rule writeTargetFiles_keeps)
    then show ?thesis
      using None Inr by (simp add: generateTranslationFiles_def Let_def)
  qed
qed

subsection \<open>The statistics of the writer\<close>

lemma stats_but_warnings_trans:
  assumes "stats b = (stats a)\<lparr> warnings := warnings (stats b) \<rparr>"
    and "stats c = (stats b)\<lparr> warnings := warnings (stats c) \<rparr>"
  shows "stats c = (stats a)\<lparr> warnings := warnings (stats c) \<rparr>"
proof -
  have "stats c = ((stats a)\<lparr> warnings := warnings (stats b) \<rparr>)\<lparr> warnings := warnings (stats c) \<rparr>"
    using assms by simp
  then show ?thesis by simp
qed

lemma writeTargetFiles_stats:
  "stats (fst (writeTargetFiles env cfg src st langs))
     = (stats st)\<lparr> warnings := warnings (stats (fst (writeTargetFiles env cfg src st langs))) \<rparr>"
proof (induction langs arbitrary: st)
  case Nil
  then show ?case by simp
next
  case (Cons lang langs)
  let ?t = "pathJoin (outputDir cfg) (lang @ ''.json'')"
  let ?existing = "readJsonFile env (fileSystemOf st) ?t"
  let ?st1 = "case ?existing of
                Unreadable _ \<Rightarrow> pushWarning (''Could not load existing '' @ lang @ '' translations'') st
              | _ \<Rightarrow> st"
  have s1: "stats ?st1 = (stats st)\<lparr> warnings := warnings (stats ?st1) \<rparr>"
    by (cases ?existing) (simp_all add: pushWarning_def)
  show ?case
  proof (cases "sortedTarget env cfg src (existingOrEmpty ?existing)")
    case (Inl err)
    then show ?thesis using s1 by (simp add: Let_def)
  next
    case (Inr target)
    show ?thesis
    proof (cases "writeFile env (fileSystemOf ?st1) ?t (JsonFile target)")
      case (Inl err)
      then show ?thesis using s1 Inr by (simp add: Let_def)
    next
      case written: (Inr fs')
      let ?r = "fst (writeTargetFiles env cfg src (?st1\<lparr> fileSystemOf := fs' \<rparr>) langs)"
      have "stats ?r = (stats (?st1\<lparr> fileSystemOf := fs' \<rparr>))\<lparr> warnings := warnings (stats ?r) \<rparr>"
        by (rule Cons.IH)
      then have "stats ?r = (stats ?st1)\<lparr> warnings := warnings (stats ?r) \<rparr>"
        by simp
      then have "stats ?r = (stats st)\<lparr> warnings := warnings (stats ?r) \<rparr>"
        using s1 by (rule stats_but_warnings_trans [rotated])
      then show ?thesis using Inr written by (simp add: Let_def)
    qed
  qed
qed

lemma generateTranslationFiles_stats:
  "stats (fst (generateTranslationFiles env cfg st))
     = (stats st)\<lparr> warnings := warnings (stats (fst (generateTranslationFiles env cfg st))) \<rparr>"
proof (cases "ensureDirError env (outputDir cfg)")
  case (Some err)
  then show ?thesis by (simp add: generateTranslationFiles_def)
next
  case None
  show ?thesis
  proof (cases "writeFile env (fileSystemOf st) (sourceCatalogPath cfg)
                  (JsonFile (asJson (generateSourceCatalog cfg (translationKeys st))))")
    case (Inl err)
    then show ?thesis using None by (simp add: generateTranslationFiles_def Let_def)
  next
    case (Inr fs1)
    show ?thesis
      using None Inr
        writeTargetFiles_stats [of env cfg "generateSourceCatalog cfg (translationKeys st)"
          "st\<lparr> fileSystemOf := fs1 \<rparr>" "targetLanguages cfg"]
      by (simp add: generateTranslationFiles_def Let_def)
  qed
qed

subsection \<open>The example project\<close>

lemma constructor_valid: "skipReason getDefaultConfig ''constructor'' = None"
  by code_simp

lemma catalog_example_run:
  "fst (transform catalogEnvironment getDefaultConfig catalogFiles) =
     \<lparr> success = True,
       resultStats = resetStats\<lparr> filesProcessed := 1, textsTransformed := 2 \<rparr>,
       resultKeys = [(''Welcome'', ''Welcome''), (''constructor'', ''constructor'')],
       modifiedFiles = [''src/Page.tsx''],
       backupPath = Some ''./i18n-backup/backup-2024-01-01T00-00-00-000Z'' \<rparr>"
  by code_simp

lemma catalog_example_source:
  "snd (transform catalogEnvironment getDefaultConfig catalogFiles) ''./src/locales/en.json''
     = Some (JsonFile (JObject [(''Welcome'', JString ''Welcome''),
                                (''constructor'', JString ''constructor'')]))"
  by code_simp

lemma catalog_example_es:
  "snd (transform catalogEnvironment getDefaultConfig catalogFiles) ''./src/locales/es.json''
     = Some (JsonFile (JObject [(''Old'', JString ''Viejo''),
                                (''Welcome'', JString ''Bienvenido'')]))"
  by code_simp

lemma catalog_example_fr:
  "snd (transform catalogEnvironment getDefaultConfig catalogFiles) ''./src/locales/fr.json''
     = Some (JsonFile (JObject [(''Welcome'', JString [])]))"
  by code_simp

lemma catalog_example_before:
  "catalogFiles ''./src/locales/es.json''
     = Some (JsonFile (JObject [(''Welcome'', JString ''Bienvenido''), (''Old'', JString ''Viejo'')])) \<and>
   catalogFiles ''./src/locales/fr.json'' = None"
  by code_simp

lemma es_path: "pathJoin (outputDir getDefaultConfig) (''es'' @ ''.json'') = ''./src/locales/es.json''"
  by code_simp

lemma es_not_source: "''es'' \<noteq> sourceLanguage getDefaultConfig"
  by code_simp

lemma old_before:
  "''Old'' \<in> keysAt (fileSystemOf pageRun) ''./src/locales/es.json''"
  unfolding pageRun_def by code_simp

lemma old_after:
  "keysAt (fileSystemOf (fst (generateTranslationFiles catalogEnvironment getDefaultConfig pageRun)))
     ''./src/locales/es.json'' = {''Old'', ''Welcome''}"
  unfolding pageRun_def by code_simp

lemma source_after:
  "keysAt (fileSystemOf (fst (generateTranslationFiles catalogEnvironment getDefaultConfig pageRun)))
     ''./src/locales/en.json'' = {''Welcome'', ''constructor''}"
  unfolding pageRun_def by code_simp

text \<open>
  C5. The run on the example project registers the accepted text \<open>constructor\<close> under the
  key \<open>constructor\<close> and writes it to the source-language catalog. The Spanish catalog,
  which has no such key, is written without it, and so is the French catalog, which did not
  exist: the test \<^verbatim>\<open>!targetTranslations[key]\<close> finds the member \<open>constructor\<close> that every
  object inherits, and the key is not added. The key \<open>Welcome\<close> keeps its translation in the
  Spanish catalog and is added with the empty string to the French one.
\<close>

theorem inherited_name_not_added:
  "isValidTranslationText getDefaultConfig ''constructor'' \<and>
   catalogFiles ''./src/locales/es.json''
     = Some (JsonFile (JObject [(''Welcome'', JString ''Bienvenido''), (''Old'', JString ''Viejo'')])) \<and>
   catalogFiles ''./src/locales/fr.json'' = None \<and>
   success (fst (transform catalogEnvironment getDefaultConfig catalogFiles)) \<and>
   resultKeys (fst (transform catalogEnvironment getDefaultConfig catalogFiles))
     = [(''Welcome'', ''Welcome''), (''constructor'', ''constructor'')] \<and>
   snd (transform catalogEnvironment getDefaultConfig catalogFiles) ''./src/locales/en.json''
     = Some (JsonFile (JObject [(''Welcome'', JString ''Welcome''),
                                (''constructor'', JString ''constructor'')])) \<and>
   snd (transform catalogEnvironment getDefaultConfig catalogFiles) ''./src/locales/es.json''
     = Some (JsonFile (JObject [(''Old'', JString ''Viejo''),
                                (''Welcome'', JString ''Bienvenido'')])) \<and>
   snd (transform catalogEnvironment getDefaultConfig catalogFiles) ''./src/locales/fr.json''
     = Some (JsonFile (JObject [(''Welcome'', JString [])]))"
  using constructor_valid catalog_example_before catalog_example_source catalog_example_es
    catalog_example_fr
  by (simp add: isValidTranslationText_def catalog_example_run)

text \<open>
  C6, as the code has it. The writer only adds keys to a target catalog: a key that the file of
  a target language holds before the writer runs (other than \<open>__proto__\<close>, which the copy
  made for sorting cannot hold) is a key of the file afterwards, whether the source catalog
  has the key or not, and whether the writer ends with an error or not.
\<close>

theorem target_keys_kept:
  "k \<in> keysAt (fileSystemOf st) (pathJoin (outputDir cfg) (lang @ ''.json'')) \<and>
   k \<noteq> ''__proto__'' \<and> lang \<noteq> sourceLanguage cfg \<longrightarrow>
   k \<in> keysAt (fileSystemOf (fst (generateTranslationFiles env cfg st)))
          (pathJoin (outputDir cfg) (lang @ ''.json''))"
  using generateTranslationFiles_keeps [of k st cfg lang env] by blast

theorem target_keys_kept_witness:
  "''Old'' \<in> keysAt (fileSystemOf pageRun) ''./src/locales/es.json'' \<and>
   ''es'' \<noteq> sourceLanguage getDefaultConfig \<and>
   ''Old'' \<in> keysAt (fileSystemOf (fst (generateTranslationFiles catalogEnvironment
                                           getDefaultConfig pageRun)))
              ''./src/locales/es.json''"
  using target_keys_kept [of "''Old''" pageRun getDefaultConfig "''es''" catalogEnvironment]
    old_before es_not_source
  unfolding es_path by simp

text \<open>
  C6, as stated: after the writer has run on the example project, the Spanish catalog holds
  the key \<open>Old\<close>, which the source-language catalog does not hold.
\<close>

theorem target_subset_counterexample:
  "keysAt (fileSystemOf (fst (generateTranslationFiles catalogEnvironment getDefaultConfig pageRun)))
     ''./src/locales/es.json'' = {''Old'', ''Welcome''} \<and>
   keysAt (fileSystemOf (fst (generateTranslationFiles catalogEnvironment getDefaultConfig pageRun)))
     ''./src/locales/en.json'' = {''Welcome'', ''constructor''} \<and>
   \<not> keysAt (fileSystemOf (fst (generateTranslationFiles catalogEnvironment getDefaultConfig
                                   pageRun))) ''./src/locales/es.json''
     \<subseteq> keysAt (fileSystemOf (fst (generateTranslationFiles catalogEnvironment getDefaultConfig
                                   pageRun))) ''./src/locales/en.json''"
  unfolding old_after source_after by simp

section \<open>Properties of the rewrite pass\<close>

lemma first_run: "transformJSXElements getDefaultConfig [] nestedAltSource
    = (nestedAltOnce, [(''x alt='', ''x alt='')], 1)"
  by code_simp

lemma second_run: "transformJSXElements getDefaultConfig [(''x alt='', ''x alt='')] nestedAltOnce
    = (nestedAltTwice, [(''x alt='', ''x alt=''), (''Hello World'', ''Hello World'')], 1)"
  by code_simp

lemma first_run_js: "transformJSXElements_js getDefaultConfig [] nestedAltSource
    = (nestedAltOnce, [(''x alt='', ''x alt='')], 1)"
  by code_simp

lemma second_run_js: "transformJSXElements_js getDefaultConfig [(''x alt='', ''x alt='')] nestedAltOnce
    = (nestedAltTwice, [(''x alt='', ''x alt=''), (''Hello World'', ''Hello World'')], 1)"
  by code_simp

lemma nested_alt_differ: "nestedAltTwice \<noteq> nestedAltOnce"
  by code_simp

text \<open>
  C2. The rewrite is not idempotent on the source text \<open>nestedAltSource\<close>, under the default
  configuration and in both transformers. The first run wraps the first \<open>alt\<close> value (one
  replacement); its key ends in \<open>alt=\<close>, so in the output the pattern of \<open>alt\<close> matches from
  inside the inserted call up to the opening quote of the second attribute. That match is
  left alone, but the scan now resumes inside the second attribute's value, where it finds
  and wraps \<open>Hello World\<close>: the second run, applied to the output of the first, reports one
  replacement and returns another content.
\<close>

theorem rewrite_twice_differs:
  "transformJSXElements getDefaultConfig [] nestedAltSource
     = (nestedAltOnce, [(''x alt='', ''x alt='')], 1) \<and>
   transformJSXElements getDefaultConfig [(''x alt='', ''x alt='')] nestedAltOnce
     = (nestedAltTwice, [(''x alt='', ''x alt=''), (''Hello World'', ''Hello World'')], 1) \<and>
   transformJSXElements_js getDefaultConfig [] nestedAltSource
     = (nestedAltOnce, [(''x alt='', ''x alt='')], 1) \<and>
   transformJSXElements_js getDefaultConfig [(''x alt='', ''x alt='')] nestedAltOnce
     = (nestedAltTwice, [(''x alt='', ''x alt=''), (''Hello World'', ''Hello World'')], 1) \<and>
   nestedAltTwice \<noteq> nestedAltOnce"
  using first_run second_run first_run_js second_run_js nested_alt_differ by blast

section \<open>Properties of the component descriptor\<close>

lemma arrow_scan_not_class:
  "snd found \<noteq> ClassComponent \<Longrightarrow>
   snd (foldl (\<lambda>found stmt. case find isFunctionInitializer stmt of
                               Some d \<Rightarrow> (variableName d, ArrowComponent)
                             | None \<Rightarrow> found) found stmts) \<noteq> ClassComponent"
  by (induction stmts arbitrary: found) (auto split: option.splits)

lemma detectComponent_not_class:
  assumes "getFunctions sf \<noteq> [] \<or> getVariableStatements sf \<noteq> []"
  shows "snd (detectComponent sf fileName) \<noteq> ClassComponent"
proof (cases "getFunctions sf = []")
  case True
  then have "getVariableStatements sf \<noteq> []" using assms by simp
  then show ?thesis
    using True arrow_scan_not_class [of "(fileName, FunctionComponent)" "getVariableStatements sf"]
    by (simp add: detectComponent_def)
next
  case False
  then show ?thesis by (simp add: detectComponent_def split: option.splits)
qed

lemma class_with_const_ast:
  "analyzeComponent getDefaultConfig classWithConstFile =
     \<lparr> componentName = ''App'', componentType = FunctionComponent,
       componentFilePath = ''src/App.tsx'', hasUseTranslation = False, needsTranslation = True \<rparr>"
  by code_simp

lemma class_with_const_js:
  "analyzeComponent_js getDefaultConfig classWithConstText ''src/App.jsx'' =
     \<lparr> componentName = ''App'', componentType = ClassComponent,
       componentFilePath = ''src/App.jsx'', hasUseTranslation = False, needsTranslation = True \<rparr>"
  by code_simp

text \<open>
  C9. The parse-tree strategy does not check the evidence in the order class, function, arrow:
  it looks at the function declarations first, then at the variable statements, and at the
  classes only when the file has neither. For a file with a top-level constant and an exported
  class component it reports function style (with the file's name), where the pattern
  strategy, on the same text, reports class style as the claim says.
\<close>

theorem class_component_reported_as_function:
  "componentType (analyzeComponent getDefaultConfig classWithConstFile) = FunctionComponent \<and>
   componentName (analyzeComponent getDefaultConfig classWithConstFile) = ''App'' \<and>
   find classExported (getClasses classWithConstFile)
     = Some \<lparr> className = Some ''App'', classExported = True, classConstructors = 0 \<rparr> \<and>
   componentType (analyzeComponent_js getDefaultConfig classWithConstText ''src/App.jsx'')
     = ClassComponent"
  by (simp add: class_with_const_ast class_with_const_js) (simp add: classWithConstFile_def)

section \<open>Properties of the run\<close>

subsection \<open>The steps of one file\<close>

lemma saveStep_ok: "stepsFrom st h (saveStep env st sf h)"
  by (simp add: stepsFrom_def saveStep_def changeCount_def save_def writeFile_def
           split: sum.splits option.splits)

lemma stepsFrom_weaken:
  assumes "stepsFrom st1 h1 r"
    and "errors (stats st1) = errors (stats st)" "warnings (stats st1) = warnings (stats st)"
    and "filesProcessed (stats st1) = filesProcessed (stats st)"
    and "fileSystemOf st1 = fileSystemOf st"
    and "changeCount st \<le> changeCount st1"
    and "h1 \<longrightarrow> h \<or> changeCount st < changeCount st1"
  shows "stepsFrom st h r"
  using assms by (auto simp: stepsFrom_def)

lemma stepsFrom_thrown:
  assumes "errors (stats st1) = errors (stats st)" "warnings (stats st1) = warnings (stats st)"
    and "filesProcessed (stats st1) = filesProcessed (stats st)"
    and "fileSystemOf st1 = fileSystemOf st"
    and "changeCount st \<le> changeCount st1"
  shows "stepsFrom st h (st1, Some err)"
  using assms by (simp add: stepsFrom_def)

lemma hookStep_ok: "stepsFrom st h (hookStep env cfg st sf info h)"
proof (cases "shouldAddHook cfg info")
  case False
  then show ?thesis by (simp add: hookStep_def saveStep_ok)
next
  case True
  show ?thesis
  proof (cases "addTranslationHook env sf info")
    case (Inl err)
    then show ?thesis using True by (simp add: hookStep_def stepsFrom_thrown)
  next
    case (Inr sf')
    let ?st1 = "st\<lparr> stats := (stats st)\<lparr> hooksAdded := hooksAdded (stats st) + 1 \<rparr> \<rparr>"
    have "stepsFrom st h (saveStep env ?st1 sf' True)"
      by (rule stepsFrom_weaken [OF saveStep_ok]) (simp_all add: changeCount_def)
    then show ?thesis using True Inr by (simp add: hookStep_def)
  qed
qed

lemma rewriteStep_ok: "stepsFrom st h (rewriteStep env cfg st sf info h)"
proof -
  obtain content reg count where t:
    "transformJSXElements cfg (translationKeys st) (getFullText sf) = (content, reg, count)"
    by (metis prod_cases3)
  let ?st1 = "st\<lparr> translationKeys := reg \<rparr>"
  show ?thesis
  proof (cases "count > 0")
    case False
    have "stepsFrom st h (hookStep env cfg ?st1 sf info h)"
      by (rule stepsFrom_weaken [OF hookStep_ok]) (simp_all add: changeCount_def)
    then show ?thesis using False t by (simp add: rewriteStep_def)
  next
    case True
    show ?thesis
    proof (cases "replaceWithText env sf content")
      case (Inl err)
      have "stepsFrom st h (?st1, Some err)"
        by (rule stepsFrom_thrown) (simp_all add: changeCount_def)
      then show ?thesis using True t Inl by (simp add: rewriteStep_def)
    next
      case (Inr sf')
      let ?st2 = "?st1\<lparr> stats := (stats ?st1)\<lparr> textsTransformed := textsTransformed (stats ?st1) + count \<rparr> \<rparr>"
      have "stepsFrom st h (hookStep env cfg ?st2 sf' info True)"
        by (rule stepsFrom_weaken [OF hookStep_ok]) (use True in \<open>simp_all add: changeCount_def\<close>)
      then show ?thesis using True t Inr by (simp add: rewriteStep_def)
    qed
  qed
qed

lemma extractStep_ok: "stepsFrom st h (extractStep env cfg st sf info h)"
proof -
  obtain found reg where t: "extractTexts cfg sf (translationKeys st) = (found, reg)"
    by (cases "extractTexts cfg sf (translationKeys st)")
  let ?st1 = "st\<lparr> translationKeys := reg \<rparr>"
  show ?thesis
  proof (cases "length found > 0")
    case False
    have "stepsFrom st h (rewriteStep env cfg ?st1 sf info h)"
      by (rule stepsFrom_weaken [OF rewriteStep_ok]) (simp_all add: changeCount_def)
    then show ?thesis using False t by (simp add: extractStep_def)
  next
    case True
    let ?st2 = "?st1\<lparr> extractedTexts := extractedTexts ?st1 @ found \<rparr>"
    have "stepsFrom st h (rewriteStep env cfg ?st2 sf info True)"
      by (rule stepsFrom_weaken [OF rewriteStep_ok]) (use True in \<open>simp_all add: changeCount_def\<close>)
    then show ?thesis using True t by (simp add: extractStep_def)
  qed
qed

lemma importStep_ok: "stepsFrom st False (importStep env cfg st sf info)"
proof (cases "shouldAddImport cfg sf")
  case False
  then show ?thesis by (simp add: importStep_def extractStep_ok)
next
  case True
  show ?thesis
  proof (cases "addTranslationImport env cfg sf")
    case (Inl err)
    then show ?thesis using True by (simp add: importStep_def stepsFrom_thrown)
  next
    case (Inr sf')
    let ?st1 = "st\<lparr> stats := (stats st)\<lparr> importsAdded := importsAdded (stats st) + 1 \<rparr> \<rparr>"
    have "stepsFrom st False (extractStep env cfg ?st1 sf' info True)"
      by (rule stepsFrom_weaken [OF extractStep_ok]) (simp_all add: changeCount_def)
    then show ?thesis using True Inr by (simp add: importStep_def)
  qed
qed

lemma transformFileSteps_ok: "stepsFrom st False (transformFileSteps env cfg st f)"
proof (cases "addSourceFileAtPath env (fileSystemOf st) f")
  case (Inl err)
  then show ?thesis by (simp add: transformFileSteps_def stepsFrom_thrown)
next
  case (Inr sf)
  let ?st1 = "st\<lparr> componentInfo := componentInfo st @ [analyzeComponent cfg sf] \<rparr>"
  have "stepsFrom st False (importStep env cfg ?st1 sf (analyzeComponent cfg sf))"
    by (rule stepsFrom_weaken [OF importStep_ok]) (simp_all add: changeCount_def)
  then show ?thesis using Inr by (simp add: transformFileSteps_def Let_def)
qed

subsection \<open>The loop over the files\<close>

lemma transformFile_thrown:
  assumes "snd (transformFileSteps env cfg st f) = Some err"
  shows "errors (stats (transformFile env cfg st f))
           = errors (stats st) @ [''Error transforming '' @ f @ '': '' @ err]"
    and "filesProcessed (stats (transformFile env cfg st f)) = filesProcessed (stats st)"
    and "fileSystemOf (transformFile env cfg st f) = fileSystemOf (fst (transformFileSteps env cfg st f))"
  using assms transformFileSteps_ok [of st env cfg f]
  by (auto simp: transformFile_def pushError_def stepsFrom_def split: prod.splits)

lemma transformFile_done:
  assumes "snd (transformFileSteps env cfg st f) = None"
  shows "transformFile env cfg st f = fst (transformFileSteps env cfg st f)"
    and "errors (stats (transformFile env cfg st f)) = errors (stats st)"
    and "filesProcessed (stats (transformFile env cfg st f)) = filesProcessed (stats st) + 1"
  using assms transformFileSteps_ok [of st env cfg f]
  by (auto simp: transformFile_def stepsFrom_def split: prod.splits)

lemma transformFile_counts:
  "filesProcessed (stats (transformFile env cfg st f)) + length (errors (stats (transformFile env cfg st f)))
     = filesProcessed (stats st) + length (errors (stats st)) + 1"
proof (cases "snd (transformFileSteps env cfg st f)")
  case None
  then show ?thesis by (simp add: transformFile_done(2,3))
next
  case (Some err)
  then show ?thesis by (simp add: transformFile_thrown(1,2))
qed

lemma transformFiles_counts:
  "filesProcessed (stats (transformFiles env cfg st files))
     + length (errors (stats (transformFiles env cfg st files)))
   = filesProcessed (stats st) + length (errors (stats st)) + length files"
  unfolding transformFiles_def
proof (induction files arbitrary: st)
  case Nil
  then show ?case by simp
next
  case (Cons f files)
  show ?case
    using Cons.IH [of "transformFile env cfg st f"] transformFile_counts [of env cfg st f]
    by simp
qed

lemma transformFiles_append:
  "transformFiles env cfg st (before @ f # rest)
     = transformFiles env cfg (transformFile env cfg (transformFiles env cfg st before) f) rest"
  by (simp add: transformFiles_def)

subsection \<open>Errors in one file, and errors of the whole run\<close>

lemma about_throws:
  "snd (transformFileSteps exampleEnvironment getDefaultConfig (initialState exampleFiles)
          ''src/About.tsx'') = Some (permissionDenied ''src/About.tsx'')"
  by code_simp

lemma example_loop:
  "stats (transformFiles exampleEnvironment getDefaultConfig (initialState exampleFiles)
            [''src/About.tsx'', ''src/App.tsx''])
   = resetStats\<lparr> filesProcessed := 1, textsTransformed := 1,
       errors := [''Error transforming src/About.tsx: '' @ permissionDenied ''src/About.tsx''] \<rparr>"
  by code_simp

lemma backup_fails:
  "createBackup_cfg (advanced getDefaultConfig) \<and>
   createBackup backupFailing getDefaultConfig = Inl ''ENOSPC: no space left on device''"
  by code_simp

lemma backup_works:
  "createBackup catalogFailing getDefaultConfig
     = Inr ''./i18n-backup/backup-2024-01-01T00-00-00-000Z''"
  by code_simp

lemma catalog_run:
  "fst (transform catalogFailing getDefaultConfig exampleFiles) =
     \<lparr> success = False,
       resultStats = resetStats\<lparr> filesProcessed := 1, textsTransformed := 1,
         errors := [''Error transforming src/About.tsx: '' @ permissionDenied ''src/About.tsx'',
                    ''Transformation failed: EACCES: permission denied, mkdir ./src/locales''] \<rparr>,
       resultKeys = [(''Hello World'', ''Hello World'')], modifiedFiles = [],
       backupPath = None \<rparr>"
  by code_simp

lemma catalog_fails:
  "generateTranslationFiles catalogFailing getDefaultConfig st
     = (st, Some ''EACCES: permission denied, mkdir ./src/locales'')"
  by (simp add: generateTranslationFiles_def catalogFailing_def getDefaultConfig_def)

text \<open>
  C7. Error isolation. An error thrown while one file is transformed is caught by
  \<^const>\<open>transformFile\<close>: the message is appended to the errors of the statistics, the file
  is not counted as processed, and the loop \<^const>\<open>transformFiles\<close> goes on with the files
  that follow it, so that every file ends either in the count of processed files or in the
  list of errors. An error thrown by the backup or by the generation of the catalogs ends
  \<^const>\<open>transform\<close>: the result has success false, no modified files, and the statistics
  accumulated up to that point, with the message of the failure appended to the errors (the
  catalog writer changes nothing of the statistics but the warnings).
\<close>

theorem error_isolation:
  "(snd (transformFileSteps env cfg st f) = Some err \<longrightarrow>
      errors (stats (transformFile env cfg st f))
        = errors (stats st) @ [''Error transforming '' @ f @ '': '' @ err] \<and>
      filesProcessed (stats (transformFile env cfg st f)) = filesProcessed (stats st)) \<and>
   transformFiles env cfg st (before @ f # rest)
     = transformFiles env cfg (transformFile env cfg (transformFiles env cfg st before) f) rest \<and>
   filesProcessed (stats (transformFiles env cfg st files))
       + length (errors (stats (transformFiles env cfg st files)))
     = filesProcessed (stats st) + length (errors (stats st)) + length files \<and>
   (createBackup_cfg (advanced cfg) \<and> createBackup env cfg = Inl err \<longrightarrow>
      transform env cfg fs =
        (\<lparr> success = False,
           resultStats = (stats (loadExistingTranslationsFile env cfg (initialState fs)))
              \<lparr> errors := errors (stats (loadExistingTranslationsFile env cfg (initialState fs)))
                            @ [''Transformation failed: '' @ err] \<rparr>,
           resultKeys = translationKeys (loadExistingTranslationsFile env cfg (initialState fs)),
           modifiedFiles = [],
           backupPath = None \<rparr>,
         fs)) \<and>
   ((createBackup_cfg (advanced cfg) \<longrightarrow> createBackup env cfg = Inr p) \<and>
    generateTranslationFiles env cfg
      (transformFiles env cfg (loadExistingTranslationsFile env cfg (initialState fs)) (findFiles env))
      = (st2, Some err) \<longrightarrow>
      fst (transform env cfg fs) =
        \<lparr> success = False,
          resultStats = (stats st2)\<lparr> errors := errors (stats st2) @ [''Transformation failed: '' @ err] \<rparr>,
          resultKeys = translationKeys st2,
          modifiedFiles = [],
          backupPath = None \<rparr> \<and>
      stats st2 = (stats (transformFiles env cfg (loadExistingTranslationsFile env cfg (initialState fs))
                            (findFiles env)))\<lparr> warnings := warnings (stats st2) \<rparr>)"
proof (intro conjI impI)
  assume "snd (transformFileSteps env cfg st f) = Some err"
  then show "errors (stats (transformFile env cfg st f))
        = errors (stats st) @ [''Error transforming '' @ f @ '': '' @ err]"
    and "filesProcessed (stats (transformFile env cfg st f)) = filesProcessed (stats st)"
    by (rule transformFile_thrown)+
next
  show "transformFiles env cfg st (before @ f # rest)
     = transformFiles env cfg (transformFile env cfg (transformFiles env cfg st before) f) rest"
    by (rule transformFiles_append)
next
  show "filesProcessed (stats (transformFiles env cfg st files))
       + length (errors (stats (transformFiles env cfg st files)))
     = filesProcessed (stats st) + length (errors (stats st)) + length files"
    by (rule transformFiles_counts)
next
  assume "createBackup_cfg (advanced cfg) \<and> createBackup env cfg = Inl err"
  moreover have "fileSystemOf (loadExistingTranslationsFile env cfg (initialState fs)) = fs"
    by (simp add: loadExistingTranslationsFile_def initialState_def pushWarning_def
             split: fileRead.splits sum.splits)
  ultimately show "transform env cfg fs =
        (\<lparr> success = False,
           resultStats = (stats (loadExistingTranslationsFile env cfg (initialState fs)))
              \<lparr> errors := errors (stats (loadExistingTranslationsFile env cfg (initialState fs)))
                            @ [''Transformation failed: '' @ err] \<rparr>,
           resultKeys = translationKeys (loadExistingTranslationsFile env cfg (initialState fs)),
           modifiedFiles = [],
           backupPath = None \<rparr>,
         fs)"
    by (simp add: transform_def Let_def failedRun_def pushError_def)
next
  assume a: "(createBackup_cfg (advanced cfg) \<longrightarrow> createBackup env cfg = Inr p) \<and>
    generateTranslationFiles env cfg
      (transformFiles env cfg (loadExistingTranslationsFile env cfg (initialState fs)) (findFiles env))
      = (st2, Some err)"
  then show "fst (transform env cfg fs) =
        \<lparr> success = False,
          resultStats = (stats st2)\<lparr> errors := errors (stats st2) @ [''Transformation failed: '' @ err] \<rparr>,
          resultKeys = translationKeys st2,
          modifiedFiles = [],
          backupPath = None \<rparr>"
    by (cases "createBackup_cfg (advanced cfg)")
       (simp_all add: transform_def Let_def failedRun_def pushError_def)
  show "stats st2 = (stats (transformFiles env cfg (loadExistingTranslationsFile env cfg (initialState fs))
                            (findFiles env)))\<lparr> warnings := warnings (stats st2) \<rparr>"
    using a generateTranslationFiles_stats [of env cfg
        "transformFiles env cfg (loadExistingTranslationsFile env cfg (initialState fs)) (findFiles env)"]
    by simp
qed

theorem error_isolation_witness:
  "snd (transformFileSteps exampleEnvironment getDefaultConfig (initialState exampleFiles)
          ''src/About.tsx'') = Some (permissionDenied ''src/About.tsx'') \<and>
   errors (stats (transformFile exampleEnvironment getDefaultConfig (initialState exampleFiles)
                    ''src/About.tsx''))
     = [''Error transforming src/About.tsx: '' @ permissionDenied ''src/About.tsx''] \<and>
   filesProcessed (stats (transformFile exampleEnvironment getDefaultConfig
                            (initialState exampleFiles) ''src/About.tsx'')) = 0 \<and>
   stats (transformFiles exampleEnvironment getDefaultConfig (initialState exampleFiles)
            [''src/About.tsx'', ''src/App.tsx''])
     = resetStats\<lparr> filesProcessed := 1, textsTransformed := 1,
         errors := [''Error transforming src/About.tsx: '' @ permissionDenied ''src/About.tsx''] \<rparr> \<and>
   createBackup_cfg (advanced getDefaultConfig) \<and>
   createBackup backupFailing getDefaultConfig = Inl ''ENOSPC: no space left on device'' \<and>
   success (fst (transform backupFailing getDefaultConfig exampleFiles)) = False \<and>
   modifiedFiles (fst (transform backupFailing getDefaultConfig exampleFiles)) = [] \<and>
   errors (resultStats (fst (transform backupFailing getDefaultConfig exampleFiles)))
     = [''Transformation failed: ENOSPC: no space left on device''] \<and>
   snd (transform backupFailing getDefaultConfig exampleFiles) = exampleFiles \<and>
   createBackup catalogFailing getDefaultConfig
     = Inr ''./i18n-backup/backup-2024-01-01T00-00-00-000Z'' \<and>
   generateTranslationFiles catalogFailing getDefaultConfig
     (transformFiles catalogFailing getDefaultConfig
        (loadExistingTranslationsFile catalogFailing getDefaultConfig (initialState exampleFiles))
        (findFiles catalogFailing))
     = (transformFiles catalogFailing getDefaultConfig
          (loadExistingTranslationsFile catalogFailing getDefaultConfig (initialState exampleFiles))
          (findFiles catalogFailing),
        Some ''EACCES: permission denied, mkdir ./src/locales'') \<and>
   fst (transform catalogFailing getDefaultConfig exampleFiles) =
     \<lparr> success = False,
       resultStats = resetStats\<lparr> filesProcessed := 1, textsTransformed := 1,
         errors := [''Error transforming src/About.tsx: '' @ permissionDenied ''src/About.tsx'',
                    ''Transformation failed: EACCES: permission denied, mkdir ./src/locales''] \<rparr>,
       resultKeys = [(''Hello World'', ''Hello World'')], modifiedFiles = [],
       backupPath = None \<rparr>"
proof -
  note a = error_isolation [where env = exampleEnvironment and cfg = getDefaultConfig
      and st = "initialState exampleFiles" and f = "''src/About.tsx''"
      and err = "permissionDenied ''src/About.tsx''"]
  have e0: "errors (stats (initialState exampleFiles)) = []"
           "filesProcessed (stats (initialState exampleFiles)) = 0"
    by (simp_all add: initialState_def resetStats_def)
  have c1: "errors (stats (transformFile exampleEnvironment getDefaultConfig
                (initialState exampleFiles) ''src/About.tsx''))
              = [''Error transforming src/About.tsx: '' @ permissionDenied ''src/About.tsx''] \<and>
            filesProcessed (stats (transformFile exampleEnvironment getDefaultConfig
                (initialState exampleFiles) ''src/About.tsx'')) = 0"
    using a about_throws e0 by simp
  note b = error_isolation [where env = backupFailing and cfg = getDefaultConfig
      and fs = exampleFiles and err = "''ENOSPC: no space left on device''"]
  have l0: "errors (stats (loadExistingTranslationsFile backupFailing getDefaultConfig
                             (initialState exampleFiles))) = []"
    by code_simp
  have c2: "success (fst (transform backupFailing getDefaultConfig exampleFiles)) = False \<and>
            modifiedFiles (fst (transform backupFailing getDefaultConfig exampleFiles)) = [] \<and>
            errors (resultStats (fst (transform backupFailing getDefaultConfig exampleFiles)))
              = [''Transformation failed: ENOSPC: no space left on device''] \<and>
            snd (transform backupFailing getDefaultConfig exampleFiles) = exampleFiles"
    using b backup_fails l0 by simp
  show ?thesis
    using about_throws c1 example_loop backup_fails c2 backup_works catalog_run
      catalog_fails [of "transformFiles catalogFailing getDefaultConfig
          (loadExistingTranslationsFile catalogFailing getDefaultConfig (initialState exampleFiles))
          (findFiles catalogFailing)"]
    by blast
qed

subsection \<open>Files that need no change\<close>

lemma modifiedFiles_transform:
  "modifiedFiles (fst (transform env cfg fs))
     = (if success (fst (transform env cfg fs)) then findFiles env else [])"
  by (simp add: transform_def Let_def failedRun_def split: sum.splits prod.splits option.splits)

lemma app_untouched:
  "importsAdded (stats (transformFile exampleEnvironment getDefaultConfig
                   (initialState exampleFiles) ''src/App.tsx''))
     = importsAdded (stats (initialState exampleFiles)) \<and>
   hooksAdded (stats (transformFile exampleEnvironment getDefaultConfig
                   (initialState exampleFiles) ''src/App.tsx''))
     = hooksAdded (stats (initialState exampleFiles)) \<and>
   textsTransformed (stats (transformFile exampleEnvironment getDefaultConfig
                   (initialState exampleFiles) ''src/App.tsx''))
     = textsTransformed (stats (initialState exampleFiles)) \<and>
   extractedTexts (transformFile exampleEnvironment getDefaultConfig
                   (initialState exampleFiles) ''src/App.tsx'')
     = extractedTexts (initialState exampleFiles)"
  by code_simp

lemma app_processed:
  "filesProcessed (stats (transformFile exampleEnvironment getDefaultConfig
                   (initialState exampleFiles) ''src/App.tsx'')) = 1"
  by code_simp

lemma example_run:
  "fst (transform exampleEnvironment getDefaultConfig exampleFiles) =
     \<lparr> success = True,
       resultStats = resetStats\<lparr> filesProcessed := 1, textsTransformed := 1,
         errors := [''Error transforming src/About.tsx: '' @ permissionDenied ''src/About.tsx''] \<rparr>,
       resultKeys = [(''Hello World'', ''Hello World'')],
       modifiedFiles = [''src/About.tsx'', ''src/App.tsx''],
       backupPath = Some ''./i18n-backup/backup-2024-01-01T00-00-00-000Z'' \<rparr>"
  by code_simp

lemma example_run_files:
  "snd (transform exampleEnvironment getDefaultConfig exampleFiles) ''src/About.tsx''
     = Some (TextFile aboutText) \<and>
   snd (transform exampleEnvironment getDefaultConfig exampleFiles) ''src/App.tsx''
     = Some (TextFile appText)"
  by code_simp

text \<open>
  C8, as the code has it. A file in which no fragment was accepted, no import was added and
  no hook was added is not saved: \<^const>\<open>transformFile\<close> leaves the file system as it was.
  The list of modified files of the result is the list of all the files found when the run
  succeeds, and the empty list when it fails.
\<close>

theorem unchanged_file_not_saved:
  "(importsAdded (stats (transformFile env cfg st f)) = importsAdded (stats st) \<and>
    hooksAdded (stats (transformFile env cfg st f)) = hooksAdded (stats st) \<and>
    textsTransformed (stats (transformFile env cfg st f)) = textsTransformed (stats st) \<and>
    extractedTexts (transformFile env cfg st f) = extractedTexts st
      \<longrightarrow> fileSystemOf (transformFile env cfg st f) = fileSystemOf st) \<and>
   modifiedFiles (fst (transform env cfg fs))
     = (if success (fst (transform env cfg fs)) then findFiles env else [])"
proof (intro conjI impI)
  let ?r = "transformFileSteps env cfg st f"
  assume same: "importsAdded (stats (transformFile env cfg st f)) = importsAdded (stats st) \<and>
    hooksAdded (stats (transformFile env cfg st f)) = hooksAdded (stats st) \<and>
    textsTransformed (stats (transformFile env cfg st f)) = textsTransformed (stats st) \<and>
    extractedTexts (transformFile env cfg st f) = extractedTexts st"
  have tf: "changeCount (transformFile env cfg st f) = changeCount (fst ?r)"
           "fileSystemOf (transformFile env cfg st f) = fileSystemOf (fst ?r)"
    by (auto simp: transformFile_def pushError_def changeCount_def split: prod.splits option.splits)
  have "changeCount (transformFile env cfg st f) = changeCount st"
    using same by (simp add: changeCount_def)
  then have "\<not> changeCount st < changeCount (fst ?r)"
    using tf(1) by simp
  then have "fileSystemOf (fst ?r) = fileSystemOf st"
    using transformFileSteps_ok [of st env cfg f] by (auto simp: stepsFrom_def)
  then show "fileSystemOf (transformFile env cfg st f) = fileSystemOf st"
    using tf(2) by simp
next
  show "modifiedFiles (fst (transform env cfg fs))
     = (if success (fst (transform env cfg fs)) then findFiles env else [])"
    by (rule modifiedFiles_transform)
qed

theorem unchanged_file_not_saved_witness:
  "importsAdded (stats (transformFile exampleEnvironment getDefaultConfig
                   (initialState exampleFiles) ''src/App.tsx''))
     = importsAdded (stats (initialState exampleFiles)) \<and>
   hooksAdded (stats (transformFile exampleEnvironment getDefaultConfig
                   (initialState exampleFiles) ''src/App.tsx''))
     = hooksAdded (stats (initialState exampleFiles)) \<and>
   textsTransformed (stats (transformFile exampleEnvironment getDefaultConfig
                   (initialState exampleFiles) ''src/App.tsx''))
     = textsTransformed (stats (initialState exampleFiles)) \<and>
   extractedTexts (transformFile exampleEnvironment getDefaultConfig
                   (initialState exampleFiles) ''src/App.tsx'')
     = extractedTexts (initialState exampleFiles) \<and>
   filesProcessed (stats (transformFile exampleEnvironment getDefaultConfig
                   (initialState exampleFiles) ''src/App.tsx'')) = 1 \<and>
   fileSystemOf (transformFile exampleEnvironment getDefaultConfig
                   (initialState exampleFiles) ''src/App.tsx'')
     = fileSystemOf (initialState exampleFiles) \<and>
   success (fst (transform exampleEnvironment getDefaultConfig exampleFiles)) \<and>
   modifiedFiles (fst (transform exampleEnvironment getDefaultConfig exampleFiles))
     = findFiles exampleEnvironment"
proof -
  note t = unchanged_file_not_saved [where env = exampleEnvironment and cfg = getDefaultConfig
      and st = "initialState exampleFiles" and f = "''src/App.tsx''" and fs = exampleFiles]
  have s: "success (fst (transform exampleEnvironment getDefaultConfig exampleFiles))"
    by (simp add: example_run)
  have "fileSystemOf (transformFile exampleEnvironment getDefaultConfig
                   (initialState exampleFiles) ''src/App.tsx'')
     = fileSystemOf (initialState exampleFiles)"
    using t app_untouched by blast
  moreover have "modifiedFiles (fst (transform exampleEnvironment getDefaultConfig exampleFiles))
     = findFiles exampleEnvironment"
    using t s by simp
  ultimately show ?thesis
    using app_untouched app_processed s by blast
qed

text \<open>
  C8, as stated: the list of modified files holds exactly the files that were modified. In the
  example project the run succeeds and reports both files as modified, and both are left as
  they were: \<open>src/App.tsx\<close> needed no change and was not saved, \<open>src/About.tsx\<close> could not
  be saved.
\<close>

theorem modified_files_counterexample:
  "success (fst (transform exampleEnvironment getDefaultConfig exampleFiles)) \<and>
   modifiedFiles (fst (transform exampleEnvironment getDefaultConfig exampleFiles))
     = [''src/About.tsx'', ''src/App.tsx''] \<and>
   snd (transform exampleEnvironment getDefaultConfig exampleFiles) ''src/About.tsx''
     = exampleFiles ''src/About.tsx'' \<and>
   snd (transform exampleEnvironment getDefaultConfig exampleFiles) ''src/App.tsx''
     = exampleFiles ''src/App.tsx''"
  using example_run example_run_files by (simp add: exampleFiles_def)

end
